theory Spec2Isabelle
  imports Main "HOL-Library.Multiset"
begin

section \<open>JavaScript values used by the two route handlers\<close>

text \<open>
  A JavaScript string is modelled by its UTF-8 encoding, one \<^typ>\<open>char\<close> per byte:
  template literals, \<open>+\<close> and \<open>join\<close> are concatenations and commute with the
  encoding. A value of type \<open>string | undefined\<close> (or \<open>string | null\<close>) is a
  \<^typ>\<open>string option\<close>; \<open>truthy\<close> is the test that \<open>if (v)\<close>, \<open>!v\<close> and
  \<open>v || w\<close> perform on it: the value is defined and not the empty string.
\<close>

definition truthy :: "string option \<Rightarrow> bool" where
  "truthy v = (case v of None \<Rightarrow> False | Some s \<Rightarrow> s \<noteq> [])"

definition js_or :: "string option \<Rightarrow> string option \<Rightarrow> string option" where
  \<comment> \<open>\<open>a || b\<close>\<close>
  "js_or a b = (if truthy a then a else b)"

text \<open>A thrown \<open>new Error(message)\<close>, carried as a value.\<close>

datatype error = Error string

fun message :: "error \<Rightarrow> string" where
  "message (Error m) = m"

subsection \<open>String literals of the stream route\<close>

definition msg_emby_not_configured :: string where
  \<comment> \<open>"Emby not configured or not enabled": "Emby " U+672A U+914D U+7F6E U+6216 U+672A U+542F U+7528\<close>
  "msg_emby_not_configured =
     ''Emby ''
     @ [CHR 0xE6, CHR 0x9C, CHR 0xAA]
     @ [CHR 0xE9, CHR 0x85, CHR 0x8D]
     @ [CHR 0xE7, CHR 0xBD, CHR 0xAE]
     @ [CHR 0xE6, CHR 0x88, CHR 0x96]
     @ [CHR 0xE6, CHR 0x9C, CHR 0xAA]
     @ [CHR 0xE5, CHR 0x90, CHR 0xAF]
     @ [CHR 0xE7, CHR 0x94, CHR 0xA8]"

definition msg_emby_auth_missing :: string where
  \<comment> \<open>"Emby credentials missing": "Emby " U+8BA4 U+8BC1 U+4FE1 U+606F U+7F3A U+5931\<close>
  "msg_emby_auth_missing =
     ''Emby ''
     @ [CHR 0xE8, CHR 0xAE, CHR 0xA4]
     @ [CHR 0xE8, CHR 0xAF, CHR 0x81]
     @ [CHR 0xE4, CHR 0xBF, CHR 0xA1]
     @ [CHR 0xE6, CHR 0x81, CHR 0xAF]
     @ [CHR 0xE7, CHR 0xBC, CHR 0xBA]
     @ [CHR 0xE5, CHR 0xA4, CHR 0xB1]"


section \<open>The configuration store\<close>

text \<open>
  Modelled from the spec: the shape of what \<open>getConfig()\<close> returns (declared in
  \<open>@/lib/config\<close> and \<open>@/lib/admin.types\<close>): the fields
  \<open>Enabled, ServerURL, ApiKey | AuthToken, Username, Password, UserId\<close> of the optional
  \<open>EmbyConfig\<close> member. Every string field may be absent or empty.
\<close>

record emby_config =
  Enabled :: bool
  ServerURL :: "string option"
  ApiKey :: "string option"
  AuthToken :: "string option"
  Username :: "string option"
  Password :: "string option"
  UserId :: "string option"

record admin_config =
  EmbyConfig :: "emby_config option"

section \<open>Stream route: the configuration cache\<close>

record cached_config =
  serverURL :: string
  apiKey :: string
  timestamp :: int

text \<open>
  The module state of the stream route: the single cache slot \<open>cachedEmbyConfig\<close>,
  together with a record of the external calls made so far: the number of
  \<open>getConfig()\<close> calls and the \<open>fetch(url, {headers})\<close> calls in order.
\<close>

type_synonym headers = "(string \<times> string) list"

record play_state =
  cachedEmbyConfig :: "cached_config option"
  getConfig_calls :: nat
  fetch_calls :: "(string \<times> headers) list"

definition CACHE_TTL :: int where
  "CACHE_TTL = 5 * 60 * 1000"

text \<open>
  Lines 30 to 54 of \<open>getCachedEmbyConfig\<close>: the reload. \<open>getConfig\<close> is what the
  store answers to this call (\<open>Inl\<close> when the call throws), \<open>now\<close> the value
  \<open>Date.now()\<close> read at the start of the call. The last case of the inner
  \<open>case\<close> cannot occur: the test before it has found the server URL truthy.
\<close>

definition reloadEmbyConfig ::
  "int \<Rightarrow> error + admin_config \<Rightarrow> play_state \<Rightarrow> (error + cached_config) \<times> play_state" where
  "reloadEmbyConfig now getConfig s =
     (let s1 = s\<lparr>getConfig_calls := getConfig_calls s + 1\<rparr> in
      case getConfig of
        Inl e \<Rightarrow> (Inl e, s1)
      | Inr config \<Rightarrow>
          (case EmbyConfig config of
             None \<Rightarrow> (Inl (Error msg_emby_not_configured), s1)
           | Some embyConfig \<Rightarrow>
               if \<not> Enabled embyConfig \<or> \<not> truthy (ServerURL embyConfig)
               then (Inl (Error msg_emby_not_configured), s1)
               else
                 (case (ServerURL embyConfig, js_or (ApiKey embyConfig) (AuthToken embyConfig)) of
                    (Some url, Some key) \<Rightarrow>
                      if key = [] then (Inl (Error msg_emby_auth_missing), s1)
                      else
                        (let c = \<lparr>serverURL = url, apiKey = key, timestamp = now\<rparr>
                         in (Inr c, s1\<lparr>cachedEmbyConfig := Some c\<rparr>))
                  | (Some url, None) \<Rightarrow> (Inl (Error msg_emby_auth_missing), s1)
                  | (None, _) \<Rightarrow> (Inl (Error msg_emby_not_configured), s1))))"

definition getCachedEmbyConfig ::
  "int \<Rightarrow> error + admin_config \<Rightarrow> play_state \<Rightarrow> (error + cached_config) \<times> play_state" where
  "getCachedEmbyConfig now getConfig s =
     (case cachedEmbyConfig s of
        None \<Rightarrow> reloadEmbyConfig now getConfig s
      | Some c \<Rightarrow>
          if now - timestamp c < CACHE_TTL then (Inr c, s)
          else reloadEmbyConfig now getConfig s)"


section \<open>Requests and responses\<close>

text \<open>
  An incoming request, as far as the handlers read it: the query parameters of its URL
  (\<open>searchParams.get\<close> returns the first value of a name, or \<open>null\<close>), its headers
  (\<open>headers.get\<close>, names in lower case), and what \<open>getAuthInfoFromCookie\<close>
  decodes from its cookie. The route parameters (\<open>token\<close>, \<open>filename\<close>) are passed
  beside it.
\<close>

record auth_info =
  username :: "string option"

record request =
  searchParams :: "(string \<times> string) list"
  req_headers :: headers
  authInfoFromCookie :: "auth_info option"

definition searchParams_get :: "request \<Rightarrow> string \<Rightarrow> string option" where
  "searchParams_get request name = map_of (searchParams request) name"

definition headers_get :: "headers \<Rightarrow> string \<Rightarrow> string option" where
  "headers_get hs name = map_of hs name"

text \<open>The two environment values the handlers read from \<open>process.env\<close>.\<close>

record process_env =
  TVBOX_SUBSCRIBE_TOKEN :: "string option"
  SITE_BASE :: "string option"

text \<open>
  A \<open>NextResponse\<close>: either \<open>NextResponse.json(body, {status})\<close> (status 200 when
  none is given) or \<open>new NextResponse(stream, {status, headers})\<close>.
\<close>

datatype 'j next_response =
  NextResponse_json 'j nat
| NextResponse_body string nat headers

fun status :: "'j next_response \<Rightarrow> nat" where
  "status (NextResponse_json b st) = st"
| "status (NextResponse_body b st hs) = st"

section \<open>Stream route: \<open>GET /api/emby/play/{token}/{filename}?itemId=...\<close>\<close>

subsection \<open>String literals\<close>

definition msg_unauthorized :: string where
  \<comment> \<open>"unauthorised": U+672A U+6388 U+6743\<close>
  "msg_unauthorized =
     [CHR 0xE6, CHR 0x9C, CHR 0xAA]
     @ [CHR 0xE6, CHR 0x8E, CHR 0x88]
     @ [CHR 0xE6, CHR 0x9D, CHR 0x83]"

definition msg_missing_itemId :: string where
  \<comment> \<open>"missing itemId parameter": U+7F3A U+5C11 " itemId " U+53C2 U+6570\<close>
  "msg_missing_itemId =
     [CHR 0xE7, CHR 0xBC, CHR 0xBA]
     @ [CHR 0xE5, CHR 0xB0, CHR 0x91]
     @ '' itemId ''
     @ [CHR 0xE5, CHR 0x8F, CHR 0x82]
     @ [CHR 0xE6, CHR 0x95, CHR 0xB0]"

definition msg_stream_failed :: string where
  \<comment> \<open>"fetching the video stream failed": U+83B7 U+53D6 U+89C6 U+9891 U+6D41 U+5931 U+8D25\<close>
  "msg_stream_failed =
     [CHR 0xE8, CHR 0x8E, CHR 0xB7]
     @ [CHR 0xE5, CHR 0x8F, CHR 0x96]
     @ [CHR 0xE8, CHR 0xA7, CHR 0x86]
     @ [CHR 0xE9, CHR 0xA2, CHR 0x91]
     @ [CHR 0xE6, CHR 0xB5, CHR 0x81]
     @ [CHR 0xE5, CHR 0xA4, CHR 0xB1]
     @ [CHR 0xE8, CHR 0xB4, CHR 0xA5]"

definition msg_play_failed :: string where
  \<comment> \<open>"playback failed": U+64AD U+653E U+5931 U+8D25\<close>
  "msg_play_failed =
     [CHR 0xE6, CHR 0x92, CHR 0xAD]
     @ [CHR 0xE6, CHR 0x94, CHR 0xBE]
     @ [CHR 0xE5, CHR 0xA4, CHR 0xB1]
     @ [CHR 0xE8, CHR 0xB4, CHR 0xA5]"


text \<open>The JSON bodies of the stream route: \<open>{error}\<close> or \<open>{error, details}\<close>.\<close>

record play_error =
  error_msg :: string
  details :: "string option"

text \<open>What \<open>fetch\<close> resolves to: status, headers and body of the upstream answer.\<close>

record fetch_response =
  fr_status :: nat
  fr_headers :: headers
  fr_body :: string

definition ok :: "fetch_response \<Rightarrow> bool" where
  \<comment> \<open>\<open>Response.ok\<close>: the status is in the range 200 to 299\<close>
  "ok r = (200 \<le> fr_status r \<and> fr_status r \<le> 299)"

definition set_if_truthy :: "string \<Rightarrow> string option \<Rightarrow> headers" where
  \<comment> \<open>\<open>if (v) { headers.set(name, v) }\<close>\<close>
  "set_if_truthy name v = (case v of None \<Rightarrow> [] | Some x \<Rightarrow> if x = [] then [] else [(name, x)])"

definition embyStreamUrl :: "cached_config \<Rightarrow> string \<Rightarrow> string" where
  "embyStreamUrl embyConfig itemId =
     serverURL embyConfig @ ''/Videos/'' @ itemId @ ''/stream?Static=true&api_key=''
       @ apiKey embyConfig"

text \<open>
  The handler. \<open>fetch\<close> is the upstream server (\<open>Inl\<close> when the call rejects); every
  call made to it is appended to \<open>fetch_calls\<close> with the URL and the headers passed.
  \<open>headersSet name value\<close> is the error that \<open>headers.set(name, value)\<close> throws when
  the platform refuses the value (a character above U+00FF, a line break), and \<open>None\<close>
  when it stores it. Only the \<open>Content-Disposition\<close> value, which holds the file name
  of the request path, can be refused: the other values are read from the headers of the
  upstream answer. The \<open>try\<close>/\<open>catch\<close> around the body turns a thrown error into
  the 500 response.
\<close>

definition GET_play ::
  "process_env \<Rightarrow> int \<Rightarrow> error + admin_config \<Rightarrow> (string \<Rightarrow> headers \<Rightarrow> error + fetch_response)
     \<Rightarrow> (string \<Rightarrow> string \<Rightarrow> error option)
     \<Rightarrow> request \<Rightarrow> string \<Rightarrow> string \<Rightarrow> play_state \<Rightarrow> play_error next_response \<times> play_state" where
  "GET_play env now getConfig fetch headersSet request token filename s =
     (let requestToken = token;
          subscribeToken = TVBOX_SUBSCRIBE_TOKEN env;
          authInfo = authInfoFromCookie request;
          hasValidToken = (truthy subscribeToken \<and> Some requestToken = subscribeToken);
          hasValidAuth = (case authInfo of None \<Rightarrow> False | Some a \<Rightarrow> truthy (username a))
      in
      if \<not> hasValidToken \<and> \<not> hasValidAuth
      then (NextResponse_json \<lparr>error_msg = msg_unauthorized, details = None\<rparr> 401, s)
      else
        (case searchParams_get request ''itemId'' of
           None \<Rightarrow> (NextResponse_json \<lparr>error_msg = msg_missing_itemId, details = None\<rparr> 400, s)
         | Some itemId \<Rightarrow>
             if itemId = []
             then (NextResponse_json \<lparr>error_msg = msg_missing_itemId, details = None\<rparr> 400, s)
             else
               (case getCachedEmbyConfig now getConfig s of
                  (Inl e, s1) \<Rightarrow>
                    (NextResponse_json
                       \<lparr>error_msg = msg_play_failed, details = Some (message e)\<rparr> 500, s1)
                | (Inr embyConfig, s1) \<Rightarrow>
                    (let url = embyStreamUrl embyConfig itemId;
                         rangeHeader = headers_get (req_headers request) ''range'';
                         requestHeaders = set_if_truthy ''Range'' rangeHeader;
                         s2 = s1\<lparr>fetch_calls := fetch_calls s1 @ [(url, requestHeaders)]\<rparr>
                     in
                     case fetch url requestHeaders of
                       Inl e \<Rightarrow>
                         (NextResponse_json
                            \<lparr>error_msg = msg_play_failed, details = Some (message e)\<rparr> 500, s2)
                     | Inr videoResponse \<Rightarrow>
                         if \<not> ok videoResponse
                         then (NextResponse_json
                                 \<lparr>error_msg = msg_stream_failed, details = None\<rparr> 500, s2)
                         else
                           (let vh = fr_headers videoResponse;
                                contentType =
                                  (case headers_get vh ''content-type'' of
                                     None \<Rightarrow> ''video/mp4''
                                   | Some t \<Rightarrow> if t = [] then ''video/mp4'' else t);
                                contentDisposition =
                                  ''inline; filename='' @ [CHR 0x22] @ filename @ [CHR 0x22];
                                hs = [(''Content-Type'', contentType)]
                                  @ set_if_truthy ''Content-Length'' (headers_get vh ''content-length'')
                                  @ set_if_truthy ''Accept-Ranges'' (headers_get vh ''accept-ranges'')
                                  @ set_if_truthy ''Content-Range'' (headers_get vh ''content-range'')
                                  @ [(''Content-Disposition'', contentDisposition)]
                            in
                            case headersSet ''Content-Disposition'' contentDisposition of
                              Some e \<Rightarrow>
                                (NextResponse_json
                                   \<lparr>error_msg = msg_play_failed, details = Some (message e)\<rparr>
                                   500, s2)
                            | None \<Rightarrow>
                                (NextResponse_body (fr_body videoResponse)
                                   (fr_status videoResponse) hs, s2))))))"


section \<open>Catalog route: library functions of the language\<close>

text \<open>
  \<open>String(n)\<close> for an integer \<open>n\<close> (as in a template literal or \<open>n.toString()\<close>):
  the decimal digits, with a leading minus sign for a negative number. Index numbers and
  years are integers below \<open>10^21\<close> in absolute value, where JavaScript prints
  all digits.
\<close>

definition digit_char :: "nat \<Rightarrow> char" where
  "digit_char d = char_of (48 + d)"

fun nat_toString :: "nat \<Rightarrow> string" where
  "nat_toString n =
     (if n < 10 then [digit_char n] else nat_toString (n div 10) @ [digit_char (n mod 10)])"

declare nat_toString.simps [simp del]

definition number_toString :: "int \<Rightarrow> string" where
  "number_toString n = (if n < 0 then ''-'' @ nat_toString (nat (- n)) else nat_toString (nat n))"

text \<open>
  A template literal prints an absent value as \<open>undefined\<close> and \<open>null\<close> as
  \<open>null\<close>.
\<close>

definition template_number :: "int option \<Rightarrow> string" where
  "template_number v = (case v of None \<Rightarrow> ''undefined'' | Some n \<Rightarrow> number_toString n)"

definition template_nullable :: "string option \<Rightarrow> string" where
  "template_nullable v = (case v of None \<Rightarrow> ''null'' | Some x \<Rightarrow> x)"

text \<open>\<open>v || 0\<close> on an optional number, and \<open>v || ''\<close> on an optional string.\<close>

definition or_zero :: "int option \<Rightarrow> int" where
  "or_zero v = (case v of None \<Rightarrow> 0 | Some n \<Rightarrow> n)"

definition or_empty :: "string option \<Rightarrow> string" where
  "or_empty v = (case v of None \<Rightarrow> [] | Some x \<Rightarrow> x)"

text \<open>\<open>String.prototype.includes\<close>: the needle occurs as a contiguous substring.\<close>

fun startsWith :: "string \<Rightarrow> string \<Rightarrow> bool" where
  "startsWith s [] = True"
| "startsWith [] (c # cs) = False"
| "startsWith (d # ds) (c # cs) = (d = c \<and> startsWith ds cs)"

fun string_includes :: "string \<Rightarrow> string \<Rightarrow> bool" where
  "string_includes [] needle = (needle = [])"
| "string_includes (c # cs) needle = (startsWith (c # cs) needle \<or> string_includes cs needle)"

text \<open>
  \<open>encodeURIComponent\<close>: every byte of the UTF-8 encoding is escaped as \<open>%XX\<close>
  (upper-case hexadecimal), except the unreserved characters
  \<open>A-Z a-z 0-9 - _ . ! ~ * ' ( )\<close>. (It throws on a string with a lone surrogate;
  such a string has no UTF-8 encoding.)
\<close>

definition uri_unreserved :: "char \<Rightarrow> bool" where
  "uri_unreserved c =
     (c \<in> set (''ABCDEFGHIJKLMNOPQRSTUVWXYZabcdefghijklmnopqrstuvwxyz0123456789-_.!~*()''
               @ [CHR 0x27]))"

definition hex_digit :: "nat \<Rightarrow> char" where
  "hex_digit d = (if d < 10 then char_of (48 + d) else char_of (55 + d))"

fun encodeURIComponent :: "string \<Rightarrow> string" where
  "encodeURIComponent [] = []"
| "encodeURIComponent (c # cs) =
     (if uri_unreserved c then [c]
      else [CHR ''%'', hex_digit (of_char c div 16), hex_digit (of_char c mod 16)])
     @ encodeURIComponent cs"

text \<open>\<open>Array.prototype.join\<close> with a separator.\<close>

fun join :: "string \<Rightarrow> string list \<Rightarrow> string" where
  "join sep [] = []"
| "join sep [x] = x"
| "join sep (x # y # ys) = x @ sep @ join sep (y # ys)"

text \<open>
  \<open>Array.prototype.sort(comparefn)\<close>. The language requires the sort to be stable and
  to order by \<open>comparefn\<close> when that is a consistent comparison; the model is the stable
  insertion sort, which takes the elements from left to right and puts each one in front
  of the first element already placed that it precedes (\<open>comparefn(x, y) < 0\<close>), or
  last when there is none. When \<open>comparefn\<close> is not a consistent comparison the
  language leaves the order to the engine: the model still returns a permutation of the
  array, but not necessarily the engine's. The results below that speak of the order do
  so for a consistent comparison, or at an input where every stable sort agrees.
\<close>

fun sort_insert :: "('a \<Rightarrow> 'a \<Rightarrow> int) \<Rightarrow> 'a \<Rightarrow> 'a list \<Rightarrow> 'a list" where
  "sort_insert comparefn x [] = [x]"
| "sort_insert comparefn x (y # ys) =
     (if comparefn x y < 0 then x # y # ys else y # sort_insert comparefn x ys)"

definition array_sort :: "('a \<Rightarrow> 'a \<Rightarrow> int) \<Rightarrow> 'a list \<Rightarrow> 'a list" where
  "array_sort comparefn xs = foldl (\<lambda>placed x. sort_insert comparefn x placed) [] xs"


section \<open>Catalog route: \<open>GET /api/emby/cms-proxy/{token}?ac=...\<close>\<close>

subsection \<open>String literals\<close>

definition msg_unsupported_ac :: string where
  \<comment> \<open>"unsupported operation": U+4E0D U+652F U+6301 U+7684 U+64CD U+4F5C\<close>
  "msg_unsupported_ac =
     [CHR 0xE4, CHR 0xB8, CHR 0x8D]
     @ [CHR 0xE6, CHR 0x94, CHR 0xAF]
     @ [CHR 0xE6, CHR 0x8C, CHR 0x81]
     @ [CHR 0xE7, CHR 0x9A, CHR 0x84]
     @ [CHR 0xE6, CHR 0x93, CHR 0x8D]
     @ [CHR 0xE4, CHR 0xBD, CHR 0x9C]"

definition msg_invalid_token :: string where
  \<comment> \<open>"invalid access token": U+65E0 U+6548 U+7684 U+8BBF U+95EE "token"\<close>
  "msg_invalid_token =
     [CHR 0xE6, CHR 0x97, CHR 0xA0]
     @ [CHR 0xE6, CHR 0x95, CHR 0x88]
     @ [CHR 0xE7, CHR 0x9A, CHR 0x84]
     @ [CHR 0xE8, CHR 0xAE, CHR 0xBF]
     @ [CHR 0xE9, CHR 0x97, CHR 0xAE]
     @ ''token''"

definition msg_emby_auth_failed :: string where
  \<comment> \<open>"Emby authentication failed": "Emby " U+8BA4 U+8BC1 U+5931 U+8D25\<close>
  "msg_emby_auth_failed =
     ''Emby ''
     @ [CHR 0xE8, CHR 0xAE, CHR 0xA4]
     @ [CHR 0xE8, CHR 0xAF, CHR 0x81]
     @ [CHR 0xE5, CHR 0xA4, CHR 0xB1]
     @ [CHR 0xE8, CHR 0xB4, CHR 0xA5]"

definition msg_missing_ids :: string where
  \<comment> \<open>"missing video id": U+7F3A U+5C11 U+89C6 U+9891 "ID"\<close>
  "msg_missing_ids =
     [CHR 0xE7, CHR 0xBC, CHR 0xBA]
     @ [CHR 0xE5, CHR 0xB0, CHR 0x91]
     @ [CHR 0xE8, CHR 0xA7, CHR 0x86]
     @ [CHR 0xE9, CHR 0xA2, CHR 0x91]
     @ ''ID''"

definition msg_data_list :: string where
  \<comment> \<open>"data list": U+6570 U+636E U+5217 U+8868\<close>
  "msg_data_list =
     [CHR 0xE6, CHR 0x95, CHR 0xB0]
     @ [CHR 0xE6, CHR 0x8D, CHR 0xAE]
     @ [CHR 0xE5, CHR 0x88, CHR 0x97]
     @ [CHR 0xE8, CHR 0xA1, CHR 0xA8]"

definition msg_not_found :: string where
  \<comment> \<open>"video not found": U+672A U+627E U+5230 U+8BE5 U+89C6 U+9891\<close>
  "msg_not_found =
     [CHR 0xE6, CHR 0x9C, CHR 0xAA]
     @ [CHR 0xE6, CHR 0x89, CHR 0xBE]
     @ [CHR 0xE5, CHR 0x88, CHR 0xB0]
     @ [CHR 0xE8, CHR 0xAF, CHR 0xA5]
     @ [CHR 0xE8, CHR 0xA7, CHR 0x86]
     @ [CHR 0xE9, CHR 0xA2, CHR 0x91]"

definition str_movie :: string where
  \<comment> \<open>"film": U+7535 U+5F71\<close>
  "str_movie =
     [CHR 0xE7, CHR 0x94, CHR 0xB5]
     @ [CHR 0xE5, CHR 0xBD, CHR 0xB1]"

definition str_series_remark :: string where
  \<comment> \<open>"series": U+5267 U+96C6\<close>
  "str_series_remark =
     [CHR 0xE5, CHR 0x89, CHR 0xA7]
     @ [CHR 0xE9, CHR 0x9B, CHR 0x86]"

definition str_tv_series :: string where
  \<comment> \<open>"television series": U+7535 U+89C6 U+5267\<close>
  "str_tv_series =
     [CHR 0xE7, CHR 0x94, CHR 0xB5]
     @ [CHR 0xE8, CHR 0xA7, CHR 0x86]
     @ [CHR 0xE5, CHR 0x89, CHR 0xA7]"

definition str_feature :: string where
  \<comment> \<open>"feature film": U+6B63 U+7247\<close>
  "str_feature =
     [CHR 0xE6, CHR 0xAD, CHR 0xA3]
     @ [CHR 0xE7, CHR 0x89, CHR 0x87]"

definition str_di :: string where
  \<comment> \<open>"ordinal prefix": U+7B2C\<close>
  "str_di =
     [CHR 0xE7, CHR 0xAC, CHR 0xAC]"

definition str_ji :: string where
  \<comment> \<open>"episode": U+96C6\<close>
  "str_ji =
     [CHR 0xE9, CHR 0x9B, CHR 0x86]"


subsection \<open>The media server client\<close>

text \<open>
  Modelled from the spec: the catalog items and the operations of \<open>EmbyClient\<close>
  (\<open>@/lib/emby.client\<close>): item search, item metadata, episode listing,
  authentication by credentials giving a user id, and the picture URL derived from the
  item id. The answers of the server are parameters; \<open>Inl\<close> is a rejected call.
\<close>

record emby_item =
  ItemId :: string
  Name :: string
  Type :: string
  ProductionYear :: "int option"
  Overview :: "string option"
  ParentIndexNumber :: "int option"
  IndexNumber :: "int option"

record getItems_params =
  searchTerm :: "string option"
  IncludeItemTypes :: string
  Recursive :: bool
  Fields :: string
  Limit :: nat

record emby_client =
  getItems :: "getItems_params \<Rightarrow> error + emby_item list"
  getItem :: "string \<Rightarrow> error + emby_item"
  getEpisodes :: "string \<Rightarrow> error + emby_item list"
  authenticate :: "string \<Rightarrow> string \<Rightarrow> error + string"
  getImageUrl :: "string \<Rightarrow> string \<Rightarrow> string"

subsection \<open>The response bodies\<close>

record vod =
  vod_id :: string
  vod_name :: string
  vod_pic :: string
  vod_remarks :: string
  vod_year :: string
  vod_content :: string
  type_name :: string
  vod_play_url :: "string option"
  vod_play_from :: "string option"

record cms_list =
  code :: int
  msg :: string
  page :: nat
  pagecount :: nat
  limit :: nat
  total :: nat
  list :: "vod list"

text \<open>
  The catalog route sends two shapes of JSON body: \<open>{code, msg}\<close> alone, and the
  full list response.
\<close>

datatype cms_body =
  CodeMsg int string
| CmsList cms_list

definition empty_list :: "int \<Rightarrow> string \<Rightarrow> cms_body" where
  \<comment> \<open>\<open>{code, msg, page: 1, pagecount: 0, limit: 0, total: 0, list: []}\<close>\<close>
  "empty_list c m =
     CmsList \<lparr>code = c, msg = m, page = 1, pagecount = 0, limit = 0, total = 0, list = []\<rparr>"

subsection \<open>\<open>handleSearch\<close>\<close>

definition search_vod :: "emby_client \<Rightarrow> emby_item \<Rightarrow> vod" where
  "search_vod client item =
     \<lparr>vod_id = ItemId item,
      vod_name = Name item,
      vod_pic = getImageUrl client (ItemId item) ''Primary'',
      vod_remarks = (if Type item = ''Movie'' then str_movie else str_series_remark),
      vod_year = (case ProductionYear item of None \<Rightarrow> [] | Some y \<Rightarrow> number_toString y),
      vod_content = or_empty (Overview item),
      type_name = (if Type item = ''Movie'' then str_movie else str_tv_series),
      vod_play_url = None,
      vod_play_from = None\<rparr>"

definition handleSearch :: "emby_client \<Rightarrow> string \<Rightarrow> error + cms_body next_response" where
  "handleSearch client query =
     (case getItems client
             \<lparr>searchTerm = (if query = [] then None else Some query),
              IncludeItemTypes = ''Movie,Series'',
              Recursive = True,
              Fields = ''Overview,ProductionYear'',
              Limit = 100\<rparr> of
        Inl e \<Rightarrow> Inl e
      | Inr Items \<Rightarrow>
          (let l = map (search_vod client) Items
           in Inr (NextResponse_json
                     (CmsList \<lparr>code = 1, msg = msg_data_list, page = 1, pagecount = 1,
                               limit = length l, total = length l, list = l\<rparr>) 200)))"


subsection \<open>\<open>handleDetail\<close>\<close>

text \<open>The base URL of the current request (lines 200 to 204).\<close>

definition baseUrl_of :: "process_env \<Rightarrow> request \<Rightarrow> string" where
  "baseUrl_of env request =
     (let host = js_or (headers_get (req_headers request) ''host'')
                       (headers_get (req_headers request) ''x-forwarded-host'');
          proto =
            (if truthy (headers_get (req_headers request) ''x-forwarded-proto'')
             then or_empty (headers_get (req_headers request) ''x-forwarded-proto'')
             else if (case host of
                        None \<Rightarrow> False
                      | Some h \<Rightarrow> string_includes h ''localhost'' \<or> string_includes h ''127.0.0.1'')
                  then ''http'' else ''https'')
      in if truthy (SITE_BASE env) then or_empty (SITE_BASE env)
         else proto @ ''://'' @ template_nullable host)"

definition proxyUrl :: "string \<Rightarrow> string \<Rightarrow> string \<Rightarrow> string" where
  \<comment> \<open>\<open>`${baseUrl}/api/emby/play/${encodeURIComponent(token)}/video.mp4?itemId=${id}`\<close>\<close>
  "proxyUrl baseUrl token itemId =
     baseUrl @ ''/api/emby/play/'' @ encodeURIComponent token @ ''/video.mp4?itemId='' @ itemId"

text \<open>The comparison function given to \<open>sort\<close> (lines 217 to 222).\<close>

definition episodeCompare :: "emby_item \<Rightarrow> emby_item \<Rightarrow> int" where
  "episodeCompare a b =
     (if ParentIndexNumber a \<noteq> ParentIndexNumber b
      then or_zero (ParentIndexNumber a) - or_zero (ParentIndexNumber b)
      else or_zero (IndexNumber a) - or_zero (IndexNumber b))"

text \<open>The function mapped over the sorted episodes (lines 223 to 227).\<close>

definition episodeEntry :: "string \<Rightarrow> string \<Rightarrow> emby_item \<Rightarrow> string" where
  "episodeEntry baseUrl token ep =
     (let title = str_di @ template_number (IndexNumber ep) @ str_ji
      in title @ ''$'' @ proxyUrl baseUrl token (ItemId ep))"

definition detail_vod :: "emby_client \<Rightarrow> emby_item \<Rightarrow> string \<Rightarrow> vod" where
  "detail_vod client item vodPlayUrl =
     \<lparr>vod_id = ItemId item,
      vod_name = Name item,
      vod_pic = getImageUrl client (ItemId item) ''Primary'',
      vod_remarks = (if Type item = ''Movie'' then str_movie else str_series_remark),
      vod_year = (case ProductionYear item of None \<Rightarrow> [] | Some y \<Rightarrow> number_toString y),
      vod_content = or_empty (Overview item),
      type_name = (if Type item = ''Movie'' then str_movie else str_tv_series),
      vod_play_url = Some vodPlayUrl,
      vod_play_from = Some ''Emby''\<rparr>"

definition handleDetail ::
  "process_env \<Rightarrow> emby_client \<Rightarrow> string \<Rightarrow> string \<Rightarrow> request \<Rightarrow> error + cms_body next_response" where
  "handleDetail env client itemId token request =
     (case getItem client itemId of
        Inl e \<Rightarrow> Inl e
      | Inr item \<Rightarrow>
          (let baseUrl = baseUrl_of env request;
               vodPlayUrl =
                 (if Type item = ''Movie''
                  then Inr (str_feature @ ''$'' @ proxyUrl baseUrl token (ItemId item))
                  else if Type item = ''Series''
                  then (case getEpisodes client itemId of
                          Inl e \<Rightarrow> Inl e
                        | Inr allEpisodes \<Rightarrow>
                            (let episodes = map (episodeEntry baseUrl token)
                                              (array_sort episodeCompare allEpisodes)
                             in Inr (join ''#'' episodes)))
                  else Inr [])
           in case vodPlayUrl of
                Inl e \<Rightarrow> Inl e
              | Inr u \<Rightarrow>
                  Inr (NextResponse_json
                         (CmsList \<lparr>code = 1, msg = msg_data_list, page = 1, pagecount = 1,
                                   limit = 1, total = 1,
                                   list = [detail_vod client item u]\<rparr>) 200)))"

subsection \<open>\<open>handleDetailBySearch\<close>\<close>

definition handleDetailBySearch ::
  "process_env \<Rightarrow> emby_client \<Rightarrow> string \<Rightarrow> string \<Rightarrow> request \<Rightarrow> error + cms_body next_response" where
  "handleDetailBySearch env client query token request =
     (case getItems client
             \<lparr>searchTerm = Some query,
              IncludeItemTypes = ''Movie,Series'',
              Recursive = True,
              Fields = ''Overview,ProductionYear'',
              Limit = 1\<rparr> of
        Inl e \<Rightarrow> Inl e
      | Inr [] \<Rightarrow> Inr (NextResponse_json (empty_list 0 msg_not_found) 200)
      | Inr (first # rest) \<Rightarrow> handleDetail env client (ItemId first) token request)"

subsection \<open>The handler\<close>

text \<open>
  The body of the \<open>try\<close> block (lines 49 to 109); \<open>newEmbyClient\<close> is the constructor
  \<open>new EmbyClient(embyConfig)\<close>.
\<close>

definition GET_cms_try ::
  "process_env \<Rightarrow> error + admin_config \<Rightarrow> (emby_config \<Rightarrow> emby_client) \<Rightarrow> request \<Rightarrow> string
     \<Rightarrow> error + cms_body next_response" where
  "GET_cms_try env getConfig newEmbyClient request token =
     (let ac = searchParams_get request ''ac'';
          wd = searchParams_get request ''wd'';
          ids = searchParams_get request ''ids''
      in
      case getConfig of
        Inl e \<Rightarrow> Inl e
      | Inr config \<Rightarrow>
          (case EmbyConfig config of
             None \<Rightarrow> Inr (NextResponse_json (empty_list 0 msg_emby_not_configured) 200)
           | Some embyConfig \<Rightarrow>
               if \<not> Enabled embyConfig \<or> \<not> truthy (ServerURL embyConfig)
               then Inr (NextResponse_json (empty_list 0 msg_emby_not_configured) 200)
               else
                 (let client = newEmbyClient embyConfig in
                  case (if \<not> truthy (UserId embyConfig) \<and> truthy (Username embyConfig)
                           \<and> truthy (Password embyConfig)
                        then (case authenticate client (or_empty (Username embyConfig))
                                     (or_empty (Password embyConfig)) of
                                Inl e \<Rightarrow> Inl e
                              | Inr uid \<Rightarrow> Inr (embyConfig\<lparr>UserId := Some uid\<rparr>))
                        else Inr embyConfig) of
                    Inl e \<Rightarrow> Inl e
                  | Inr embyConfig' \<Rightarrow>
                      if \<not> truthy (UserId embyConfig')
                      then Inr (NextResponse_json (empty_list 0 msg_emby_auth_failed) 200)
                      else if truthy wd
                      then (if ac = Some ''detail''
                            then handleDetailBySearch env client (or_empty wd) token request
                            else handleSearch client (or_empty wd))
                      else if truthy ids \<or> ac = Some ''detail''
                      then (if \<not> truthy ids
                            then Inr (NextResponse_json (empty_list 0 msg_missing_ids) 200)
                            else handleDetail env client (or_empty ids) token request)
                      else handleSearch client [])))"

definition GET_cms_proxy ::
  "process_env \<Rightarrow> error + admin_config \<Rightarrow> (emby_config \<Rightarrow> emby_client) \<Rightarrow> request \<Rightarrow> string
     \<Rightarrow> cms_body next_response" where
  "GET_cms_proxy env getConfig newEmbyClient request token =
     (let ac = searchParams_get request ''ac'';
          requestToken = token;
          subscribeToken = TVBOX_SUBSCRIBE_TOKEN env
      in
      if ac \<noteq> Some ''videolist'' \<and> ac \<noteq> Some ''list'' \<and> ac \<noteq> Some ''detail''
      then NextResponse_json (CodeMsg 400 msg_unsupported_ac) 400
      else if \<not> truthy subscribeToken \<or> Some requestToken \<noteq> subscribeToken
      then NextResponse_json (empty_list 401 msg_invalid_token) 200
      else
        (case GET_cms_try env getConfig newEmbyClient request requestToken of
           Inl e \<Rightarrow> NextResponse_json (empty_list 500 (message e)) 200
         | Inr response \<Rightarrow> response))"


subsection \<open>Reading a response\<close>

text \<open>
  The list response a \<open>NextResponse\<close> carries: none when its body is \<open>{code, msg}\<close>
  alone, which has no \<open>list\<close>, \<open>limit\<close> or \<open>total\<close> member.
\<close>

fun cms_list_of :: "cms_body next_response \<Rightarrow> cms_list option" where
  "cms_list_of (NextResponse_json (CmsList r) st) = Some r"
| "cms_list_of (NextResponse_json (CodeMsg c m) st) = None"
| "cms_list_of (NextResponse_body b st hs) = None"

text \<open>
  The order the specification asks of the episodes: by season index, then by episode
  index, an absent index counting as 0.
\<close>

definition spec_episode_key :: "emby_item \<Rightarrow> int \<times> int" where
  "spec_episode_key ep = (or_zero (ParentIndexNumber ep), or_zero (IndexNumber ep))"

definition spec_key_le :: "int \<times> int \<Rightarrow> int \<times> int \<Rightarrow> bool" where
  "spec_key_le k k' = (fst k < fst k' \<or> (fst k = fst k' \<and> snd k \<le> snd k'))"

section \<open>Example inputs\<close>

definition ex_cached :: cached_config where
  "ex_cached = \<lparr>serverURL = ''http://emby:8096'', apiKey = ''key1'', timestamp = 1000\<rparr>"

definition ex_state_empty :: play_state where
  "ex_state_empty = \<lparr>cachedEmbyConfig = None, getConfig_calls = 0, fetch_calls = []\<rparr>"

definition ex_state_cached :: play_state where
  "ex_state_cached = \<lparr>cachedEmbyConfig = Some ex_cached, getConfig_calls = 1, fetch_calls = []\<rparr>"

definition ex_emby_config :: emby_config where
  "ex_emby_config =
     \<lparr>Enabled = True, ServerURL = Some ''http://emby:8096'', ApiKey = Some ''key1'',
      AuthToken = Some ''tok2'', Username = None, Password = None, UserId = Some ''u1''\<rparr>"

definition ex_config :: admin_config where
  "ex_config = \<lparr>EmbyConfig = Some ex_emby_config\<rparr>"

definition ex_config_disabled :: admin_config where
  "ex_config_disabled = \<lparr>EmbyConfig = Some (ex_emby_config\<lparr>Enabled := False\<rparr>)\<rparr>"

definition ex_config_authtoken :: admin_config where
  "ex_config_authtoken = \<lparr>EmbyConfig = Some (ex_emby_config\<lparr>ApiKey := None\<rparr>)\<rparr>"

definition ex_env :: process_env where
  "ex_env = \<lparr>TVBOX_SUBSCRIBE_TOKEN = Some ''secret'', SITE_BASE = None\<rparr>"

definition ex_env_unset :: process_env where
  "ex_env_unset = \<lparr>TVBOX_SUBSCRIBE_TOKEN = None, SITE_BASE = None\<rparr>"

definition ex_movie :: emby_item where
  "ex_movie =
     \<lparr>ItemId = ''m1'', Name = ''Heat'', Type = ''Movie'', ProductionYear = Some 1995,
      Overview = Some ''A heist.'', ParentIndexNumber = None, IndexNumber = None\<rparr>"

definition ex_series :: emby_item where
  "ex_series =
     \<lparr>ItemId = ''s1'', Name = ''The Wire'', Type = ''Series'', ProductionYear = Some 2002,
      Overview = None, ParentIndexNumber = None, IndexNumber = None\<rparr>"

definition ex_episode :: "string \<Rightarrow> int option \<Rightarrow> int option \<Rightarrow> emby_item" where
  "ex_episode i season episode =
     \<lparr>ItemId = i, Name = ''Episode'', Type = ''Episode'', ProductionYear = None,
      Overview = None, ParentIndexNumber = season, IndexNumber = episode\<rparr>"

text \<open>A media server holding \<open>ex_movie\<close> and \<open>ex_series\<close> with the given episodes.\<close>

definition ex_client :: "emby_item list \<Rightarrow> emby_client" where
  "ex_client eps =
     \<lparr>getItems = (\<lambda>p. Inr (take (Limit p) [ex_movie, ex_series])),
      getItem = (\<lambda>i. if i = ''m1'' then Inr ex_movie
                      else if i = ''s1'' then Inr ex_series
                      else Inl (Error ''Not Found'')),
      getEpisodes = (\<lambda>i. Inr eps),
      authenticate = (\<lambda>u p. Inr ''u1''),
      getImageUrl = (\<lambda>i t. ''http://emby:8096/Items/'' @ i @ ''/Images/'' @ t)\<rparr>"

definition ex_newEmbyClient :: "emby_config \<Rightarrow> emby_client" where
  "ex_newEmbyClient embyConfig = ex_client []"

definition ex_request :: "(string \<times> string) list \<Rightarrow> headers \<Rightarrow> auth_info option \<Rightarrow> request" where
  "ex_request params hs auth =
     \<lparr>searchParams = params, req_headers = hs, authInfoFromCookie = auth\<rparr>"

text \<open>
  A platform whose \<open>headers.set\<close> refuses a value with a character above U+00FF
  (in UTF-8: a byte from \<open>0xC4\<close> on) and stores every other value.
\<close>

definition ex_headersSet :: "string \<Rightarrow> string \<Rightarrow> error option" where
  "ex_headersSet name v =
     (if list_all (\<lambda>c. (of_char c :: nat) < 196) v then None
      else Some (Error ''Cannot convert argument to a ByteString''))"

definition ex_fetch :: "string \<Rightarrow> headers \<Rightarrow> error + fetch_response" where
  "ex_fetch url hs =
     Inr \<lparr>fr_status = 206, fr_headers = [(''content-type'', ''video/webm'')], fr_body = ''...''\<rparr>"

section \<open>The configuration cache\<close>

lemma reload_calls:
  "getConfig_calls (snd (reloadEmbyConfig now getConfig s)) = getConfig_calls s + 1"
  by (simp add: reloadEmbyConfig_def Let_def split: sum.splits option.splits prod.splits)

lemma reload_Inl:
  "fst (reloadEmbyConfig now getConfig s) = Inl e \<Longrightarrow>
     snd (reloadEmbyConfig now getConfig s) = s\<lparr>getConfig_calls := getConfig_calls s + 1\<rparr>"
  by (auto simp add: reloadEmbyConfig_def Let_def
           split: sum.splits option.splits prod.splits if_splits)

lemma reload_Inr:
  "fst (reloadEmbyConfig now getConfig s) = Inr c \<Longrightarrow>
     (\<exists>config embyConfig. getConfig = Inr config \<and> EmbyConfig config = Some embyConfig
        \<and> Enabled embyConfig
        \<and> ServerURL embyConfig = Some (serverURL c) \<and> serverURL c \<noteq> []
        \<and> js_or (ApiKey embyConfig) (AuthToken embyConfig) = Some (apiKey c) \<and> apiKey c \<noteq> [])
     \<and> timestamp c = now
     \<and> snd (reloadEmbyConfig now getConfig s) =
           s\<lparr>getConfig_calls := getConfig_calls s + 1, cachedEmbyConfig := Some c\<rparr>"
  by (auto simp add: reloadEmbyConfig_def Let_def truthy_def
           split: sum.splits option.splits prod.splits if_splits)

lemma miss_reload:
  "cachedEmbyConfig s = None
     \<or> (\<exists>c. cachedEmbyConfig s = Some c \<and> \<not> now - timestamp c < CACHE_TTL) \<Longrightarrow>
   getCachedEmbyConfig now getConfig s = reloadEmbyConfig now getConfig s"
  by (auto simp add: getCachedEmbyConfig_def)

lemma hit_cached:
  "cachedEmbyConfig s = Some c \<Longrightarrow> now - timestamp c < CACHE_TTL \<Longrightarrow>
   getCachedEmbyConfig now getConfig s = (Inr c, s)"
  by (simp add: getCachedEmbyConfig_def)

lemma failure_is_miss:
  "fst (getCachedEmbyConfig now getConfig s) = Inl e \<Longrightarrow>
   cachedEmbyConfig s = None
     \<or> (\<exists>c. cachedEmbyConfig s = Some c \<and> \<not> now - timestamp c < CACHE_TTL)"
  by (cases "cachedEmbyConfig s") (auto simp add: getCachedEmbyConfig_def split: if_splits)

text \<open>
  C1. A call that finds an entry younger than 300000 ms returns that entry and leaves
  the whole state as it was, so no call to the configuration store is made. A call that
  finds no entry, or one whose age has reached 300000 ms, calls the store exactly once;
  when it succeeds, the entry returned holds the server URL and the credential of the
  store's answer and the time of this call, and it is the new content of the slot.
\<close>

theorem getCachedEmbyConfig_ttl:
  "(\<forall>c. cachedEmbyConfig s = Some c \<and> now - timestamp c < 300000 \<longrightarrow>
        getCachedEmbyConfig now getConfig s = (Inr c, s))
   \<and> (cachedEmbyConfig s = None
        \<or> (\<exists>c. cachedEmbyConfig s = Some c \<and> \<not> now - timestamp c < 300000) \<longrightarrow>
       getConfig_calls (snd (getCachedEmbyConfig now getConfig s)) = getConfig_calls s + 1
       \<and> (\<forall>c'. fst (getCachedEmbyConfig now getConfig s) = Inr c' \<longrightarrow>
             (\<exists>config embyConfig. getConfig = Inr config \<and> EmbyConfig config = Some embyConfig
                \<and> ServerURL embyConfig = Some (serverURL c')
                \<and> js_or (ApiKey embyConfig) (AuthToken embyConfig) = Some (apiKey c'))
             \<and> timestamp c' = now
             \<and> snd (getCachedEmbyConfig now getConfig s) =
                  s\<lparr>getConfig_calls := getConfig_calls s + 1, cachedEmbyConfig := Some c'\<rparr>))"
proof (intro conjI allI impI)
  fix c assume "cachedEmbyConfig s = Some c \<and> now - timestamp c < 300000"
  then show "getCachedEmbyConfig now getConfig s = (Inr c, s)"
    by (simp add: hit_cached CACHE_TTL_def)
next
  assume "cachedEmbyConfig s = None
        \<or> (\<exists>c. cachedEmbyConfig s = Some c \<and> \<not> now - timestamp c < 300000)"
  then have eq: "getCachedEmbyConfig now getConfig s = reloadEmbyConfig now getConfig s"
    by (intro miss_reload) (simp add: CACHE_TTL_def)
  show "getConfig_calls (snd (getCachedEmbyConfig now getConfig s)) = getConfig_calls s + 1"
    by (simp add: eq reload_calls)
  fix c' assume "fst (getCachedEmbyConfig now getConfig s) = Inr c'"
  then have r: "fst (reloadEmbyConfig now getConfig s) = Inr c'" by (simp add: eq)
  from reload_Inr [OF r]
  show "\<exists>config embyConfig. getConfig = Inr config \<and> EmbyConfig config = Some embyConfig
                \<and> ServerURL embyConfig = Some (serverURL c')
                \<and> js_or (ApiKey embyConfig) (AuthToken embyConfig) = Some (apiKey c')"
    by blast
  from reload_Inr [OF r] show "timestamp c' = now" by blast
  from reload_Inr [OF r] show "snd (getCachedEmbyConfig now getConfig s) =
                  s\<lparr>getConfig_calls := getConfig_calls s + 1, cachedEmbyConfig := Some c'\<rparr>"
    by (simp add: eq)
qed

theorem getCachedEmbyConfig_ttl_witness:
  "getCachedEmbyConfig 300999 (Inr ex_config_authtoken) ex_state_cached = (Inr ex_cached, ex_state_cached)
   \<and> getCachedEmbyConfig 301000 (Inr ex_config_authtoken) ex_state_cached =
       (Inr \<lparr>serverURL = ''http://emby:8096'', apiKey = ''tok2'', timestamp = 301000\<rparr>,
        \<lparr>cachedEmbyConfig =
           Some \<lparr>serverURL = ''http://emby:8096'', apiKey = ''tok2'', timestamp = 301000\<rparr>,
         getConfig_calls = 2, fetch_calls = []\<rparr>)"
proof -
  have hit: "cachedEmbyConfig ex_state_cached = Some ex_cached \<and> 300999 - timestamp ex_cached < 300000"
    by (simp add: ex_state_cached_def ex_cached_def)
  have miss: "cachedEmbyConfig ex_state_cached = None
      \<or> (\<exists>c. cachedEmbyConfig ex_state_cached = Some c \<and> \<not> 301000 - timestamp c < 300000)"
    by (simp add: ex_state_cached_def ex_cached_def)
  have ok: "fst (getCachedEmbyConfig 301000 (Inr ex_config_authtoken) ex_state_cached) =
      Inr \<lparr>serverURL = ''http://emby:8096'', apiKey = ''tok2'', timestamp = 301000\<rparr>"
    by (simp add: getCachedEmbyConfig_def reloadEmbyConfig_def ex_state_cached_def ex_cached_def
        ex_config_authtoken_def ex_emby_config_def CACHE_TTL_def js_or_def truthy_def Let_def)
  from getCachedEmbyConfig_ttl [of ex_state_cached 300999 "Inr ex_config_authtoken"] hit
  have first: "getCachedEmbyConfig 300999 (Inr ex_config_authtoken) ex_state_cached = (Inr ex_cached, ex_state_cached)"
    by blast
  from getCachedEmbyConfig_ttl [of ex_state_cached 301000 "Inr ex_config_authtoken"] miss ok
  have "snd (getCachedEmbyConfig 301000 (Inr ex_config_authtoken) ex_state_cached) =
      ex_state_cached\<lparr>getConfig_calls := getConfig_calls ex_state_cached + 1,
        cachedEmbyConfig := Some \<lparr>serverURL = ''http://emby:8096'', apiKey = ''tok2'', timestamp = 301000\<rparr>\<rparr>"
    by blast
  with ok first show ?thesis
    by (simp add: prod_eq_iff ex_state_cached_def)
qed

lemma CACHE_TTL_value: "CACHE_TTL = 300000"
  by (simp add: CACHE_TTL_def)

text \<open>
  C4. When a call fails, the state after it is the state before it with one more call to
  the configuration store counted: the slot holds what it held, and no failure is stored.
  The next call therefore goes to the store again: at any time when the slot is empty,
  and at any time not before this call when it holds an expired entry.
  The failures of the reload are the ones of \<open>reload_validation\<close> below and a
  rejected \<open>getConfig()\<close>.
\<close>

theorem reload_failure_not_cached:
  assumes "fst (getCachedEmbyConfig now getConfig s) = Inl e"
  shows "snd (getCachedEmbyConfig now getConfig s) = s\<lparr>getConfig_calls := getConfig_calls s + 1\<rparr>
     \<and> cachedEmbyConfig (snd (getCachedEmbyConfig now getConfig s)) = cachedEmbyConfig s
     \<and> (\<forall>now' getConfig'. now \<le> now' \<or> cachedEmbyConfig s = None \<longrightarrow>
           getConfig_calls (snd (getCachedEmbyConfig now' getConfig'
                                   (snd (getCachedEmbyConfig now getConfig s)))) =
           getConfig_calls s + 2)"
proof -
  let ?s' = "snd (getCachedEmbyConfig now getConfig s)"
  from assms have miss: "cachedEmbyConfig s = None
     \<or> (\<exists>c. cachedEmbyConfig s = Some c \<and> \<not> now - timestamp c < CACHE_TTL)"
    by (rule failure_is_miss)
  then have eq: "getCachedEmbyConfig now getConfig s = reloadEmbyConfig now getConfig s"
    by (rule miss_reload)
  with assms have "fst (reloadEmbyConfig now getConfig s) = Inl e" by simp
  then have s': "?s' = s\<lparr>getConfig_calls := getConfig_calls s + 1\<rparr>"
    using reload_Inl eq by simp
  have again: "getConfig_calls (snd (getCachedEmbyConfig now' getConfig' ?s')) = getConfig_calls s + 2"
    if "now \<le> now' \<or> cachedEmbyConfig s = None" for now' getConfig'
  proof -
    from miss that have "cachedEmbyConfig ?s' = None
       \<or> (\<exists>c. cachedEmbyConfig ?s' = Some c \<and> \<not> now' - timestamp c < CACHE_TTL)"
      by (auto simp add: s')
    then have "getCachedEmbyConfig now' getConfig' ?s' = reloadEmbyConfig now' getConfig' ?s'"
      by (rule miss_reload)
    then show ?thesis by (simp add: reload_calls s')
  qed
  from s' again show ?thesis by simp
qed

theorem reload_failure_not_cached_witness:
  "fst (getCachedEmbyConfig 301000 (Inr ex_config_disabled) ex_state_cached) = Inl (Error msg_emby_not_configured)
   \<and> cachedEmbyConfig (snd (getCachedEmbyConfig 301000 (Inr ex_config_disabled) ex_state_cached)) = Some ex_cached
   \<and> getConfig_calls (snd (getCachedEmbyConfig 301001 (Inr ex_config)
        (snd (getCachedEmbyConfig 301000 (Inr ex_config_disabled) ex_state_cached)))) = 3"
proof -
  have fails: "fst (getCachedEmbyConfig 301000 (Inr ex_config_disabled) ex_state_cached) = Inl (Error msg_emby_not_configured)"
    by (simp add: getCachedEmbyConfig_def reloadEmbyConfig_def ex_state_cached_def ex_cached_def
        ex_config_disabled_def ex_emby_config_def CACHE_TTL_def)
  have le: "(301000::int) \<le> 301001" by simp
  from reload_failure_not_cached [OF fails] le
  have "getConfig_calls (snd (getCachedEmbyConfig 301001 (Inr ex_config)
        (snd (getCachedEmbyConfig 301000 (Inr ex_config_disabled) ex_state_cached)))) =
        getConfig_calls ex_state_cached + 2"
    by blast
  moreover from reload_failure_not_cached [OF fails]
  have "cachedEmbyConfig (snd (getCachedEmbyConfig 301000 (Inr ex_config_disabled) ex_state_cached)) =
        cachedEmbyConfig ex_state_cached"
    by blast
  ultimately show ?thesis using fails
    by (simp add: ex_state_cached_def)
qed

text \<open>
  C7. A call that has to reload fails with the message "not configured or not enabled"
  when the store has no Emby configuration, when it is disabled, or when its server URL
  is missing (absent or empty). Otherwise the credential is the API key when there is
  one (defined and not empty), else the auth token when there is one, and the call
  fails with the message "credentials missing" when there is neither.
\<close>

theorem reload_validation:
  assumes "cachedEmbyConfig s = None
     \<or> (\<exists>c. cachedEmbyConfig s = Some c \<and> \<not> now - timestamp c < CACHE_TTL)"
  shows "(EmbyConfig config = None \<longrightarrow>
            fst (getCachedEmbyConfig now (Inr config) s) = Inl (Error msg_emby_not_configured))
     \<and> (\<forall>e. EmbyConfig config = Some e \<longrightarrow>
          (\<not> Enabled e \<or> \<not> truthy (ServerURL e) \<longrightarrow>
             fst (getCachedEmbyConfig now (Inr config) s) = Inl (Error msg_emby_not_configured))
        \<and> (\<forall>url. Enabled e \<and> ServerURL e = Some url \<and> url \<noteq> [] \<longrightarrow>
             (\<forall>key. ApiKey e = Some key \<and> key \<noteq> [] \<longrightarrow>
                fst (getCachedEmbyConfig now (Inr config) s) =
                  Inr \<lparr>serverURL = url, apiKey = key, timestamp = now\<rparr>)
           \<and> (\<forall>tok. \<not> truthy (ApiKey e) \<and> AuthToken e = Some tok \<and> tok \<noteq> [] \<longrightarrow>
                fst (getCachedEmbyConfig now (Inr config) s) =
                  Inr \<lparr>serverURL = url, apiKey = tok, timestamp = now\<rparr>)
           \<and> (\<not> truthy (ApiKey e) \<and> \<not> truthy (AuthToken e) \<longrightarrow>
                fst (getCachedEmbyConfig now (Inr config) s) = Inl (Error msg_emby_auth_missing))))"
proof -
  have eq: "getCachedEmbyConfig now (Inr config) s = reloadEmbyConfig now (Inr config) s"
    using assms by (rule miss_reload)
  show ?thesis
    unfolding eq
    by (auto simp add: reloadEmbyConfig_def Let_def truthy_def js_or_def
             split: option.splits)
qed

theorem reload_validation_witness:
  "fst (getCachedEmbyConfig 5 (Inr \<lparr>EmbyConfig = None\<rparr>) ex_state_empty) =
      Inl (Error msg_emby_not_configured)
   \<and> fst (getCachedEmbyConfig 5 (Inr ex_config_disabled) ex_state_empty) =
      Inl (Error msg_emby_not_configured)
   \<and> fst (getCachedEmbyConfig 5 (Inr ex_config) ex_state_empty) =
      Inr \<lparr>serverURL = ''http://emby:8096'', apiKey = ''key1'', timestamp = 5\<rparr>
   \<and> fst (getCachedEmbyConfig 5 (Inr ex_config_authtoken) ex_state_empty) =
      Inr \<lparr>serverURL = ''http://emby:8096'', apiKey = ''tok2'', timestamp = 5\<rparr>
   \<and> fst (getCachedEmbyConfig 5
        (Inr \<lparr>EmbyConfig = Some (ex_emby_config\<lparr>ApiKey := Some [], AuthToken := None\<rparr>)\<rparr>)
        ex_state_empty) = Inl (Error msg_emby_auth_missing)"
proof -
  have miss: "cachedEmbyConfig ex_state_empty = None
     \<or> (\<exists>c. cachedEmbyConfig ex_state_empty = Some c \<and> \<not> 5 - timestamp c < CACHE_TTL)"
    by (simp add: ex_state_empty_def)
  note v = reload_validation [OF miss]
  from v [of "\<lparr>EmbyConfig = None\<rparr>"]
  have 1: "fst (getCachedEmbyConfig 5 (Inr \<lparr>EmbyConfig = None\<rparr>) ex_state_empty) =
      Inl (Error msg_emby_not_configured)"
    by simp
  from v [of ex_config_disabled]
  have 2: "fst (getCachedEmbyConfig 5 (Inr ex_config_disabled) ex_state_empty) =
      Inl (Error msg_emby_not_configured)"
    by (simp add: ex_config_disabled_def ex_emby_config_def)
  from v [of ex_config]
  have 3: "fst (getCachedEmbyConfig 5 (Inr ex_config) ex_state_empty) =
      Inr \<lparr>serverURL = ''http://emby:8096'', apiKey = ''key1'', timestamp = 5\<rparr>"
    by (simp add: ex_config_def ex_emby_config_def)
  from v [of ex_config_authtoken]
  have 4: "fst (getCachedEmbyConfig 5 (Inr ex_config_authtoken) ex_state_empty) =
      Inr \<lparr>serverURL = ''http://emby:8096'', apiKey = ''tok2'', timestamp = 5\<rparr>"
    by (simp add: ex_config_authtoken_def ex_emby_config_def truthy_def)
  from v [of "\<lparr>EmbyConfig = Some (ex_emby_config\<lparr>ApiKey := Some [], AuthToken := None\<rparr>)\<rparr>"]
  have 5: "fst (getCachedEmbyConfig 5
        (Inr \<lparr>EmbyConfig = Some (ex_emby_config\<lparr>ApiKey := Some [], AuthToken := None\<rparr>)\<rparr>)
        ex_state_empty) = Inl (Error msg_emby_auth_missing)"
    by (simp add: ex_emby_config_def truthy_def)
  from 1 2 3 4 5 show ?thesis by blast
qed


section \<open>The access guard\<close>

lemma GET_play_unauthorized:
  "\<not> (truthy (TVBOX_SUBSCRIBE_TOKEN env) \<and> Some token = TVBOX_SUBSCRIBE_TOKEN env) \<Longrightarrow>
   \<not> (\<exists>a. authInfoFromCookie request = Some a \<and> truthy (username a)) \<Longrightarrow>
   GET_play env now getConfig fetch headersSet request token filename s =
     (NextResponse_json \<lparr>error_msg = msg_unauthorized, details = None\<rparr> 401, s)"
  by (auto simp add: GET_play_def Let_def split: option.splits)

lemma GET_play_authorized_status:
  assumes "(truthy (TVBOX_SUBSCRIBE_TOKEN env) \<and> Some token = TVBOX_SUBSCRIBE_TOKEN env)
     \<or> (\<exists>a. authInfoFromCookie request = Some a \<and> truthy (username a))"
  shows "status (fst (GET_play env now getConfig fetch headersSet request token filename s)) \<noteq> 401"
  using assms
  by (auto simp add: GET_play_def Let_def ok_def split: option.splits sum.splits prod.splits)

lemma GET_cms_proxy_bad_token:
  "searchParams_get request ''ac'' \<in> {Some ''videolist'', Some ''list'', Some ''detail''} \<Longrightarrow>
   \<not> truthy (TVBOX_SUBSCRIBE_TOKEN env) \<or> Some token \<noteq> TVBOX_SUBSCRIBE_TOKEN env \<Longrightarrow>
   GET_cms_proxy env getConfig newEmbyClient request token =
     NextResponse_json
       (CmsList \<lparr>code = 401, msg = msg_invalid_token, page = 1, pagecount = 0,
                 limit = 0, total = 0, list = []\<rparr>) 200"
  by (auto simp add: GET_cms_proxy_def Let_def empty_list_def)

text \<open>
  C2, as the code has it. For every request token that is not the configured secret:
  the catalog route, on a request whose \<open>ac\<close> is one of \<open>videolist\<close>, \<open>list\<close>,
  \<open>detail\<close>, answers HTTP 200 with the body of code 401 and an empty list; the stream
  route, on a request without a valid session (no decoded cookie, or one without a user
  name), answers HTTP 401 and changes nothing.
\<close>

theorem invalid_token_rejected:
  assumes "TVBOX_SUBSCRIBE_TOKEN env \<noteq> Some token"
  shows "(searchParams_get request ''ac'' \<in> {Some ''videolist'', Some ''list'', Some ''detail''} \<longrightarrow>
            GET_cms_proxy env getConfig newEmbyClient request token =
              NextResponse_json
                (CmsList \<lparr>code = 401, msg = msg_invalid_token, page = 1, pagecount = 0,
                          limit = 0, total = 0, list = []\<rparr>) 200)
       \<and> (\<not> (\<exists>a. authInfoFromCookie request = Some a \<and> truthy (username a)) \<longrightarrow>
            GET_play env now getConfig fetch headersSet request token filename s =
              (NextResponse_json \<lparr>error_msg = msg_unauthorized, details = None\<rparr> 401, s))"
proof (intro conjI impI)
  assume "searchParams_get request ''ac'' \<in> {Some ''videolist'', Some ''list'', Some ''detail''}"
  moreover from assms have "\<not> truthy (TVBOX_SUBSCRIBE_TOKEN env) \<or> Some token \<noteq> TVBOX_SUBSCRIBE_TOKEN env"
    by auto
  ultimately show "GET_cms_proxy env getConfig newEmbyClient request token =
              NextResponse_json
                (CmsList \<lparr>code = 401, msg = msg_invalid_token, page = 1, pagecount = 0,
                          limit = 0, total = 0, list = []\<rparr>) 200"
    by (rule GET_cms_proxy_bad_token)
next
  assume "\<not> (\<exists>a. authInfoFromCookie request = Some a \<and> truthy (username a))"
  moreover from assms have "\<not> (truthy (TVBOX_SUBSCRIBE_TOKEN env) \<and> Some token = TVBOX_SUBSCRIBE_TOKEN env)"
    by auto
  ultimately show "GET_play env now getConfig fetch headersSet request token filename s =
              (NextResponse_json \<lparr>error_msg = msg_unauthorized, details = None\<rparr> 401, s)"
    by (intro GET_play_unauthorized)
qed

theorem invalid_token_rejected_witness:
  "GET_cms_proxy ex_env (Inr ex_config) ex_newEmbyClient
       (ex_request [(''ac'', ''list'')] [] None) ''guess'' =
     NextResponse_json
       (CmsList \<lparr>code = 401, msg = msg_invalid_token, page = 1, pagecount = 0,
                 limit = 0, total = 0, list = []\<rparr>) 200
   \<and> GET_play ex_env 0 (Inr ex_config) ex_fetch ex_headersSet
       (ex_request [(''itemId'', ''m1'')] [] None) ''guess'' ''video.mp4'' ex_state_empty =
     (NextResponse_json \<lparr>error_msg = msg_unauthorized, details = None\<rparr> 401, ex_state_empty)"
proof -
  have tok: "TVBOX_SUBSCRIBE_TOKEN ex_env \<noteq> Some ''guess''"
    by (simp add: ex_env_def)
  have ac: "searchParams_get (ex_request [(''ac'', ''list'')] [] None) ''ac''
      \<in> {Some ''videolist'', Some ''list'', Some ''detail''}"
    by (simp add: searchParams_get_def ex_request_def)
  have nocookie: "\<not> (\<exists>a. authInfoFromCookie (ex_request [(''itemId'', ''m1'')] [] None) = Some a
      \<and> truthy (username a))"
    by (simp add: ex_request_def)
  from invalid_token_rejected [OF tok, of "ex_request [(''ac'', ''list'')] [] None"] ac
  have 1: "GET_cms_proxy ex_env (Inr ex_config) ex_newEmbyClient
       (ex_request [(''ac'', ''list'')] [] None) ''guess'' =
     NextResponse_json
       (CmsList \<lparr>code = 401, msg = msg_invalid_token, page = 1, pagecount = 0,
                 limit = 0, total = 0, list = []\<rparr>) 200"
    by blast
  from invalid_token_rejected [OF tok, of "ex_request [(''itemId'', ''m1'')] [] None"] nocookie
  have 2: "GET_play ex_env 0 (Inr ex_config) ex_fetch ex_headersSet
       (ex_request [(''itemId'', ''m1'')] [] None) ''guess'' ''video.mp4'' ex_state_empty =
     (NextResponse_json \<lparr>error_msg = msg_unauthorized, details = None\<rparr> 401, ex_state_empty)"
    by blast
  from 1 2 show ?thesis by blast
qed

text \<open>
  C2 as stated fails twice. The catalog route looks at \<open>ac\<close> before it looks at the
  token, so a wrong token with an unsupported \<open>ac\<close> gets HTTP 400 and the body
  \<open>{code: 400, msg}\<close>. The stream route accepts a valid session in place of the token,
  so a wrong token with a session cookie gets the stream (here with the upstream status
  206).
\<close>

theorem invalid_token_counterexample:
  "TVBOX_SUBSCRIBE_TOKEN ex_env \<noteq> Some ''guess''
   \<and> GET_cms_proxy ex_env (Inr ex_config) ex_newEmbyClient
       (ex_request [(''ac'', ''play'')] [] None) ''guess'' =
     NextResponse_json (CodeMsg 400 msg_unsupported_ac) 400
   \<and> status (fst (GET_play ex_env 0 (Inr ex_config) ex_fetch ex_headersSet
       (ex_request [(''itemId'', ''m1'')] [] (Some \<lparr>username = Some ''alice''\<rparr>))
       ''guess'' ''video.mp4'' ex_state_empty)) = 206"
  by (simp add: GET_cms_proxy_def GET_play_def Let_def searchParams_get_def ex_request_def
        ex_env_def truthy_def getCachedEmbyConfig_def reloadEmbyConfig_def ex_state_empty_def
        ex_config_def ex_emby_config_def js_or_def ex_fetch_def ok_def headers_get_def
        ex_headersSet_def)

text \<open>
  C9, as the code has it. When the secret is unset or empty, no token is accepted: the
  catalog route answers every request with a supported \<open>ac\<close> by the body of code 401
  and an empty list, whatever the token, and the stream route answers HTTP 401 exactly
  when the request has no valid session.
\<close>

theorem unset_secret:
  assumes "\<not> truthy (TVBOX_SUBSCRIBE_TOKEN env)"
  shows "(searchParams_get request ''ac'' \<in> {Some ''videolist'', Some ''list'', Some ''detail''} \<longrightarrow>
            GET_cms_proxy env getConfig newEmbyClient request token =
              NextResponse_json
                (CmsList \<lparr>code = 401, msg = msg_invalid_token, page = 1, pagecount = 0,
                          limit = 0, total = 0, list = []\<rparr>) 200)
       \<and> (\<not> (\<exists>a. authInfoFromCookie request = Some a \<and> truthy (username a)) \<longrightarrow>
            GET_play env now getConfig fetch headersSet request token filename s =
              (NextResponse_json \<lparr>error_msg = msg_unauthorized, details = None\<rparr> 401, s))
       \<and> ((\<exists>a. authInfoFromCookie request = Some a \<and> truthy (username a)) \<longrightarrow>
            status (fst (GET_play env now getConfig fetch headersSet request token filename s)) \<noteq> 401)"
  using assms GET_cms_proxy_bad_token [of request env token getConfig newEmbyClient]
    GET_play_unauthorized [of env token request now getConfig fetch headersSet filename s]
    GET_play_authorized_status [of env token request now getConfig fetch headersSet filename s]
  by blast

theorem unset_secret_witness:
  "GET_cms_proxy \<lparr>TVBOX_SUBSCRIBE_TOKEN = Some [], SITE_BASE = None\<rparr> (Inr ex_config)
       ex_newEmbyClient (ex_request [(''ac'', ''detail'')] [] None) [] =
     NextResponse_json
       (CmsList \<lparr>code = 401, msg = msg_invalid_token, page = 1, pagecount = 0,
                 limit = 0, total = 0, list = []\<rparr>) 200
   \<and> GET_play ex_env_unset 0 (Inr ex_config) ex_fetch ex_headersSet
       (ex_request [(''itemId'', ''m1'')] [] (Some \<lparr>username = None\<rparr>)) ''any'' ''video.mp4''
       ex_state_empty =
     (NextResponse_json \<lparr>error_msg = msg_unauthorized, details = None\<rparr> 401, ex_state_empty)
   \<and> status (fst (GET_play ex_env_unset 0 (Inr ex_config) ex_fetch ex_headersSet
       (ex_request [(''itemId'', ''m1'')] [] (Some \<lparr>username = Some ''alice''\<rparr>)) ''any''
       ''video.mp4'' ex_state_empty)) \<noteq> 401"
proof -
  have empty: "\<not> truthy (TVBOX_SUBSCRIBE_TOKEN \<lparr>TVBOX_SUBSCRIBE_TOKEN = Some [], SITE_BASE = None\<rparr>)"
    by (simp add: truthy_def)
  have unset: "\<not> truthy (TVBOX_SUBSCRIBE_TOKEN ex_env_unset)"
    by (simp add: truthy_def ex_env_unset_def)
  have ac: "searchParams_get (ex_request [(''ac'', ''detail'')] [] None) ''ac''
      \<in> {Some ''videolist'', Some ''list'', Some ''detail''}"
    by (simp add: searchParams_get_def ex_request_def)
  have nosession: "\<not> (\<exists>a. authInfoFromCookie
        (ex_request [(''itemId'', ''m1'')] [] (Some \<lparr>username = None\<rparr>)) = Some a
      \<and> truthy (username a))"
    by (simp add: ex_request_def truthy_def)
  have session: "\<exists>a. authInfoFromCookie
        (ex_request [(''itemId'', ''m1'')] [] (Some \<lparr>username = Some ''alice''\<rparr>)) = Some a
      \<and> truthy (username a)"
    by (simp add: ex_request_def truthy_def)
  from unset_secret [OF empty, of "ex_request [(''ac'', ''detail'')] [] None"] ac
  have 1: "GET_cms_proxy \<lparr>TVBOX_SUBSCRIBE_TOKEN = Some [], SITE_BASE = None\<rparr> (Inr ex_config)
       ex_newEmbyClient (ex_request [(''ac'', ''detail'')] [] None) [] =
     NextResponse_json
       (CmsList \<lparr>code = 401, msg = msg_invalid_token, page = 1, pagecount = 0,
                 limit = 0, total = 0, list = []\<rparr>) 200"
    by blast
  from unset_secret [OF unset,
      of "ex_request [(''itemId'', ''m1'')] [] (Some \<lparr>username = None\<rparr>)"] nosession
  have 2: "GET_play ex_env_unset 0 (Inr ex_config) ex_fetch ex_headersSet
       (ex_request [(''itemId'', ''m1'')] [] (Some \<lparr>username = None\<rparr>)) ''any'' ''video.mp4''
       ex_state_empty =
     (NextResponse_json \<lparr>error_msg = msg_unauthorized, details = None\<rparr> 401, ex_state_empty)"
    by blast
  from unset_secret [OF unset,
      of "ex_request [(''itemId'', ''m1'')] [] (Some \<lparr>username = Some ''alice''\<rparr>)"] session
  have 3: "status (fst (GET_play ex_env_unset 0 (Inr ex_config) ex_fetch ex_headersSet
       (ex_request [(''itemId'', ''m1'')] [] (Some \<lparr>username = Some ''alice''\<rparr>)) ''any''
       ''video.mp4'' ex_state_empty)) \<noteq> 401"
    by blast
  from 1 2 3 show ?thesis by blast
qed

text \<open>
  C9 as stated fails on the catalog route: with the secret unset, a request whose \<open>ac\<close>
  is missing is answered HTTP 400 with \<open>{code: 400, msg}\<close>, not with the body of
  code 401.
\<close>

theorem unset_secret_counterexample:
  "\<not> truthy (TVBOX_SUBSCRIBE_TOKEN ex_env_unset)
   \<and> GET_cms_proxy ex_env_unset (Inr ex_config) ex_newEmbyClient
       (ex_request [(''wd'', ''heat'')] [] None) ''any'' =
     NextResponse_json (CodeMsg 400 msg_unsupported_ac) 400"
  by (simp add: GET_cms_proxy_def Let_def searchParams_get_def ex_request_def
        ex_env_unset_def truthy_def)

section \<open>The list responses of the catalog route\<close>

lemma handleSearch_counts:
  "handleSearch client query = Inr r \<Longrightarrow>
   \<exists>l. cms_list_of r = Some l \<and> length (list l) = limit l \<and> length (list l) = total l"
  by (auto simp add: handleSearch_def Let_def split: sum.splits)

lemma handleDetail_counts:
  "handleDetail env client itemId token request = Inr r \<Longrightarrow>
   \<exists>l. cms_list_of r = Some l \<and> length (list l) = limit l \<and> length (list l) = total l"
  by (auto simp add: handleDetail_def Let_def split: sum.splits if_splits)

lemma empty_list_counts:
  "\<exists>l. cms_list_of (NextResponse_json (empty_list c m) st) = Some l
       \<and> length (list l) = limit l \<and> length (list l) = total l"
  by (simp add: empty_list_def)

lemma handleDetailBySearch_counts:
  "handleDetailBySearch env client query token request = Inr r \<Longrightarrow>
   \<exists>l. cms_list_of r = Some l \<and> length (list l) = limit l \<and> length (list l) = total l"
  using empty_list_counts handleDetail_counts
  by (auto simp add: handleDetailBySearch_def split: sum.splits list.splits)

lemma GET_cms_try_counts:
  "GET_cms_try env getConfig newEmbyClient request token = Inr r \<Longrightarrow>
   \<exists>l. cms_list_of r = Some l \<and> length (list l) = limit l \<and> length (list l) = total l"
  unfolding GET_cms_try_def Let_def
  by (auto split: sum.splits option.splits if_splits
           dest: handleSearch_counts handleDetail_counts handleDetailBySearch_counts
           simp add: empty_list_def)

text \<open>
  C3, as the code has it. Every response to a request with a supported \<open>ac\<close> (a search
  result, a detail result, and each of the empty responses of codes 401, 0 and 500) is a
  list response in which the length of \<open>list\<close> is both \<open>limit\<close> and \<open>total\<close>. The
  response to any other request is \<open>{code: 400, msg}\<close> with HTTP 400.
\<close>

theorem cms_list_counts:
  "(searchParams_get request ''ac'' \<in> {Some ''videolist'', Some ''list'', Some ''detail''} \<longrightarrow>
      (\<exists>l. cms_list_of (GET_cms_proxy env getConfig newEmbyClient request token) = Some l
           \<and> length (list l) = limit l \<and> length (list l) = total l))
   \<and> (searchParams_get request ''ac'' \<notin> {Some ''videolist'', Some ''list'', Some ''detail''} \<longrightarrow>
      GET_cms_proxy env getConfig newEmbyClient request token =
        NextResponse_json (CodeMsg 400 msg_unsupported_ac) 400)"
proof (intro conjI impI)
  assume ac: "searchParams_get request ''ac'' \<in> {Some ''videolist'', Some ''list'', Some ''detail''}"
  show "\<exists>l. cms_list_of (GET_cms_proxy env getConfig newEmbyClient request token) = Some l
           \<and> length (list l) = limit l \<and> length (list l) = total l"
  proof (cases "\<not> truthy (TVBOX_SUBSCRIBE_TOKEN env) \<or> Some token \<noteq> TVBOX_SUBSCRIBE_TOKEN env")
    case True
    with ac have "GET_cms_proxy env getConfig newEmbyClient request token =
        NextResponse_json (empty_list 401 msg_invalid_token) 200"
      by (auto simp add: GET_cms_proxy_def Let_def)
    then show ?thesis by (simp add: empty_list_def)
  next
    case False
    show ?thesis
    proof (cases "GET_cms_try env getConfig newEmbyClient request token")
      case (Inl e)
      with False ac have "GET_cms_proxy env getConfig newEmbyClient request token =
          NextResponse_json (empty_list 500 (message e)) 200"
        by (auto simp add: GET_cms_proxy_def Let_def)
      then show ?thesis by (simp add: empty_list_def)
    next
      case (Inr r)
      with False ac have "GET_cms_proxy env getConfig newEmbyClient request token = r"
        by (auto simp add: GET_cms_proxy_def Let_def)
      with GET_cms_try_counts [OF Inr] show ?thesis by simp
    qed
  qed
next
  assume "searchParams_get request ''ac'' \<notin> {Some ''videolist'', Some ''list'', Some ''detail''}"
  then show "GET_cms_proxy env getConfig newEmbyClient request token =
        NextResponse_json (CodeMsg 400 msg_unsupported_ac) 400"
    by (simp add: GET_cms_proxy_def Let_def)
qed

theorem cms_list_counts_witness:
  "\<exists>l. cms_list_of (GET_cms_proxy ex_env (Inr ex_config) ex_newEmbyClient
           (ex_request [(''ac'', ''videolist'')] [] None) ''secret'') = Some l
       \<and> length (list l) = limit l \<and> length (list l) = total l \<and> total l = 2"
proof -
  have ac: "searchParams_get (ex_request [(''ac'', ''videolist'')] [] None) ''ac''
      \<in> {Some ''videolist'', Some ''list'', Some ''detail''}"
    by (simp add: searchParams_get_def ex_request_def)
  have "GET_cms_try ex_env (Inr ex_config) ex_newEmbyClient
           (ex_request [(''ac'', ''videolist'')] [] None) ''secret'' =
        handleSearch (ex_client []) []"
    by (simp add: GET_cms_try_def Let_def searchParams_get_def ex_request_def ex_config_def
          ex_emby_config_def truthy_def ex_newEmbyClient_def)
  then have "\<exists>l. cms_list_of (GET_cms_proxy ex_env (Inr ex_config) ex_newEmbyClient
           (ex_request [(''ac'', ''videolist'')] [] None) ''secret'') = Some l \<and> total l = 2"
    by (simp add: GET_cms_proxy_def Let_def searchParams_get_def ex_request_def ex_env_def
          truthy_def handleSearch_def ex_client_def)
  with cms_list_counts [of "ex_request [(''ac'', ''videolist'')] [] None" ex_env "Inr ex_config"
      ex_newEmbyClient "''secret''"] ac
  show ?thesis by auto
qed

text \<open>
  C3 as stated fails on the error response for an unsupported \<open>ac\<close>: its body has no
  \<open>list\<close>, \<open>limit\<close> or \<open>total\<close> at all.
\<close>

theorem cms_list_counts_counterexample:
  "cms_list_of (GET_cms_proxy ex_env (Inr ex_config) ex_newEmbyClient
      (ex_request [(''ac'', ''home'')] [] None) ''secret'') = None"
  by (simp add: GET_cms_proxy_def Let_def searchParams_get_def ex_request_def)

section \<open>The stream proxy\<close>

lemma startsWith_append: "startsWith (xs @ ys) xs"
  by (induction xs) auto

lemma string_includes_prefix: "string_includes (xs @ ys) xs"
proof (cases "xs @ ys")
  case Nil
  then show ?thesis by simp
next
  case (Cons a zs)
  have "startsWith (xs @ ys) xs" by (rule startsWith_append)
  with Cons show ?thesis by simp
qed

lemma string_includes_self: "string_includes xs xs"
  using string_includes_prefix [of xs "[]"] by simp

lemma string_includes_suffix: "string_includes (xs @ ys) ys"
  by (induction xs) (auto simp add: string_includes_self)

lemma getCached_fetch_calls:
  "fetch_calls (snd (getCachedEmbyConfig now getConfig s)) = fetch_calls s"
  by (simp add: getCachedEmbyConfig_def reloadEmbyConfig_def Let_def
           split: sum.splits option.splits prod.splits)

text \<open>
  What the handler does once the request is authorised, names an item and the
  configuration is resolved: one call of \<open>fetch\<close>, whose answer is relayed.
\<close>

lemma GET_play_proxied:
  assumes "(truthy (TVBOX_SUBSCRIBE_TOKEN env) \<and> Some token = TVBOX_SUBSCRIBE_TOKEN env)
             \<or> (\<exists>a. authInfoFromCookie request = Some a \<and> truthy (username a))"
    and "searchParams_get request ''itemId'' = Some itemId" and "itemId \<noteq> []"
    and "getCachedEmbyConfig now getConfig s = (Inr c, s1)"
  shows "GET_play env now getConfig fetch headersSet request token filename s =
     (let requestHeaders = set_if_truthy ''Range'' (headers_get (req_headers request) ''range'');
          s2 = s1\<lparr>fetch_calls := fetch_calls s1 @ [(embyStreamUrl c itemId, requestHeaders)]\<rparr>
      in
      case fetch (embyStreamUrl c itemId) requestHeaders of
        Inl e \<Rightarrow>
          (NextResponse_json \<lparr>error_msg = msg_play_failed, details = Some (message e)\<rparr> 500, s2)
      | Inr videoResponse \<Rightarrow>
          if \<not> ok videoResponse
          then (NextResponse_json \<lparr>error_msg = msg_stream_failed, details = None\<rparr> 500, s2)
          else
            (let vh = fr_headers videoResponse;
                 contentType =
                   (case headers_get vh ''content-type'' of
                      None \<Rightarrow> ''video/mp4''
                    | Some t \<Rightarrow> if t = [] then ''video/mp4'' else t);
                 contentDisposition = ''inline; filename='' @ [CHR 0x22] @ filename @ [CHR 0x22];
                 hs = [(''Content-Type'', contentType)]
                   @ set_if_truthy ''Content-Length'' (headers_get vh ''content-length'')
                   @ set_if_truthy ''Accept-Ranges'' (headers_get vh ''accept-ranges'')
                   @ set_if_truthy ''Content-Range'' (headers_get vh ''content-range'')
                   @ [(''Content-Disposition'', contentDisposition)]
             in
             case headersSet ''Content-Disposition'' contentDisposition of
               Some e \<Rightarrow>
                 (NextResponse_json \<lparr>error_msg = msg_play_failed, details = Some (message e)\<rparr>
                    500, s2)
             | None \<Rightarrow>
                 (NextResponse_body (fr_body videoResponse) (fr_status videoResponse) hs, s2)))"
proof -
  from assms(1)
  have a: "(\<not> (truthy (TVBOX_SUBSCRIBE_TOKEN env) \<and> Some token = TVBOX_SUBSCRIBE_TOKEN env)
      \<and> \<not> (case authInfoFromCookie request of None \<Rightarrow> False | Some a \<Rightarrow> truthy (username a)))
      = False"
    by (auto split: option.splits)
  show ?thesis
    unfolding GET_play_def Let_def a
    by (simp only: if_False assms(2-4) option.case prod.case sum.case)
qed

text \<open>
  C6. When the request is authorised, names an item and the configuration is resolved
  (from the cache or by a reload), the handler makes one upstream call. Its URL is the
  resolved server URL, \<open>/Videos/<itemId>/stream?Static=true&api_key=\<close> and the
  resolved credential, so it contains both. Its headers are \<open>Range\<close> with the value of
  the inbound \<open>Range\<close> header when that header is there with a value, and nothing
  otherwise: an absent or empty \<open>Range\<close> gives no header, and no other header of the
  request is passed on.
\<close>

theorem stream_upstream_request:
  assumes "(truthy (TVBOX_SUBSCRIBE_TOKEN env) \<and> Some token = TVBOX_SUBSCRIBE_TOKEN env)
             \<or> (\<exists>a. authInfoFromCookie request = Some a \<and> truthy (username a))"
    and "searchParams_get request ''itemId'' = Some itemId" and "itemId \<noteq> []"
    and "fst (getCachedEmbyConfig now getConfig s) = Inr c"
  shows "\<exists>url. fetch_calls (snd (GET_play env now getConfig fetch headersSet request token filename s)) =
            fetch_calls s @
              [(url,
                case headers_get (req_headers request) ''range'' of
                  None \<Rightarrow> []
                | Some r \<Rightarrow> if r = [] then [] else [(''Range'', r)])]
          \<and> url = serverURL c @ ''/Videos/'' @ itemId @ ''/stream?Static=true&api_key='' @ apiKey c
          \<and> string_includes url (serverURL c) \<and> string_includes url (apiKey c)"
proof -
  obtain s1 where g: "getCachedEmbyConfig now getConfig s = (Inr c, s1)"
    using assms(4) by (cases "getCachedEmbyConfig now getConfig s") simp
  have s1: "fetch_calls s1 = fetch_calls s"
    using getCached_fetch_calls [of now getConfig s] g by simp
  let ?url = "serverURL c @ ''/Videos/'' @ itemId @ ''/stream?Static=true&api_key='' @ apiKey c"
  have "fetch_calls (snd (GET_play env now getConfig fetch headersSet request token filename s)) =
            fetch_calls s @
              [(?url,
                case headers_get (req_headers request) ''range'' of
                  None \<Rightarrow> []
                | Some r \<Rightarrow> if r = [] then [] else [(''Range'', r)])]"
    unfolding GET_play_proxied [OF assms(1-3) g] Let_def
    by (simp add: s1 embyStreamUrl_def set_if_truthy_def split: sum.splits option.splits)
  moreover have "string_includes ?url (serverURL c)"
    by (rule string_includes_prefix)
  moreover have "string_includes ?url (apiKey c)"
    using string_includes_suffix
      [of "serverURL c @ ''/Videos/'' @ itemId @ ''/stream?Static=true&api_key=''" "apiKey c"]
    by simp
  ultimately show ?thesis by blast
qed

theorem stream_upstream_request_witness:
  "fetch_calls (snd (GET_play ex_env 2000 (Inr ex_config_disabled) ex_fetch ex_headersSet
       (ex_request [(''itemId'', ''m1'')]
          [(''cookie'', ''auth=x''), (''range'', ''bytes=0-99''), (''user-agent'', ''tvbox'')] None)
       ''secret'' ''video.mp4'' ex_state_cached)) =
     [(''http://emby:8096/Videos/m1/stream?Static=true&api_key=key1'',
       [(''Range'', ''bytes=0-99'')])]"
proof -
  let ?request = "ex_request [(''itemId'', ''m1'')]
          [(''cookie'', ''auth=x''), (''range'', ''bytes=0-99''), (''user-agent'', ''tvbox'')] None"
  have auth: "(truthy (TVBOX_SUBSCRIBE_TOKEN ex_env) \<and> Some ''secret'' = TVBOX_SUBSCRIBE_TOKEN ex_env)
             \<or> (\<exists>a. authInfoFromCookie ?request = Some a \<and> truthy (username a))"
    by (simp add: ex_env_def truthy_def)
  have item: "searchParams_get ?request ''itemId'' = Some ''m1''"
    by (simp add: searchParams_get_def ex_request_def)
  have ne: "''m1'' \<noteq> []" by simp
  have cfg: "fst (getCachedEmbyConfig 2000 (Inr ex_config_disabled) ex_state_cached) = Inr ex_cached"
    by (simp add: getCachedEmbyConfig_def ex_state_cached_def ex_cached_def CACHE_TTL_def)
  from stream_upstream_request [OF auth item ne cfg, of ex_fetch ex_headersSet "''video.mp4''"]
  show ?thesis
    by (auto simp add: ex_request_def headers_get_def ex_cached_def ex_state_cached_def)
qed

text \<open>
  When the platform refuses the \<open>Content-Disposition\<close> value, the upstream call has
  been made and the handler answers 500 with the message of the error.
\<close>

lemma GET_play_header_refused:
  assumes "(truthy (TVBOX_SUBSCRIBE_TOKEN env) \<and> Some token = TVBOX_SUBSCRIBE_TOKEN env)
             \<or> (\<exists>a. authInfoFromCookie request = Some a \<and> truthy (username a))"
    and "searchParams_get request ''itemId'' = Some itemId" and "itemId \<noteq> []"
    and "getCachedEmbyConfig now getConfig s = (Inr c, s1)"
    and "fetch (embyStreamUrl c itemId)
           (set_if_truthy ''Range'' (headers_get (req_headers request) ''range'')) =
         Inr videoResponse"
    and "ok videoResponse"
    and "headersSet ''Content-Disposition''
           (''inline; filename='' @ [CHR 0x22] @ filename @ [CHR 0x22]) = Some e"
  shows "GET_play env now getConfig fetch headersSet request token filename s =
     (NextResponse_json \<lparr>error_msg = msg_play_failed, details = Some (message e)\<rparr> 500,
      s1\<lparr>fetch_calls := fetch_calls s1 @
            [(embyStreamUrl c itemId,
              set_if_truthy ''Range'' (headers_get (req_headers request) ''range''))]\<rparr>)"
  unfolding GET_play_proxied [OF assms(1-4)] Let_def
  using assms(5-7) by simp

section \<open>The detail response\<close>

lemma hex_digit_not_hash: "d < 16 \<Longrightarrow> hex_digit d \<noteq> CHR ''#''"
  by (auto simp add: hex_digit_def char_of_eq_iff take_bit_eq_mod)

lemma of_char_div_16: "(of_char (c::char) :: nat) div 16 < 16"
proof -
  have "(of_char c :: nat) < 256" by simp
  then show ?thesis by arith
qed

lemma hash_reserved: "\<not> uri_unreserved CHR ''#''"
  by (simp add: uri_unreserved_def)

lemma encodeURIComponent_no_hash: "CHR ''#'' \<notin> set (encodeURIComponent t)"
proof (induction t)
  case Nil
  show ?case by simp
next
  case (Cons c cs)
  have 1: "hex_digit (of_char c div 16) \<noteq> CHR ''#''"
    by (rule hex_digit_not_hash) (rule of_char_div_16)
  have 2: "hex_digit (of_char c mod 16) \<noteq> CHR ''#''"
    by (rule hex_digit_not_hash) simp
  show ?case
  proof (cases "uri_unreserved c")
    case True
    with hash_reserved have "c \<noteq> CHR ''#''" by auto
    with True Cons show ?thesis by simp
  next
    case False
    with 1 2 Cons show ?thesis by (simp add: eq_commute)
  qed
qed

lemma movie_detail:
  assumes "getItem client itemId = Inr item" and "Type item = ''Movie''"
  shows "handleDetail env client itemId token request =
     Inr (NextResponse_json
            (CmsList \<lparr>code = 1, msg = msg_data_list, page = 1, pagecount = 1, limit = 1, total = 1,
                      list = [detail_vod client item
                                (str_feature @ ''$''
                                  @ proxyUrl (baseUrl_of env request) token (ItemId item))]\<rparr>)
            200)"
  using assms by (simp add: handleDetail_def Let_def)

lemma series_detail:
  assumes "getItem client itemId = Inr item" and "Type item = ''Series''"
    and "getEpisodes client itemId = Inr eps"
  shows "handleDetail env client itemId token request =
     Inr (NextResponse_json
            (CmsList \<lparr>code = 1, msg = msg_data_list, page = 1, pagecount = 1, limit = 1, total = 1,
                      list = [detail_vod client item
                                (join ''#'' (map (episodeEntry (baseUrl_of env request) token)
                                               (array_sort episodeCompare eps)))]\<rparr>)
            200)"
  using assms by (simp add: handleDetail_def Let_def)

text \<open>
  C8. For an item of type \<open>Movie\<close> the response lists one record, whose
  \<open>vod_play_url\<close> is the label (the two characters U+6B63 U+7247, in UTF-8), a
  \<open>$\<close>, and the proxy URL: the base URL of this site, the path of the stream route
  with the escaped token and the file name \<open>video.mp4\<close>, and the item id as
  \<open>itemId\<close>. Nothing is joined to it: unless the base URL or the item id contain one,
  the string has no \<open>#\<close>, so it is a single segment.
\<close>

theorem movie_play_url:
  assumes "getItem client itemId = Inr item" and "Type item = ''Movie''"
  shows "\<exists>r v u. handleDetail env client itemId token request =
                   Inr (NextResponse_json (CmsList r) 200)
           \<and> list r = [v] \<and> vod_play_url v = Some u
           \<and> u = [CHR 0xE6, CHR 0xAD, CHR 0xA3, CHR 0xE7, CHR 0x89, CHR 0x87] @ ''$''
                 @ baseUrl_of env request @ ''/api/emby/play/'' @ encodeURIComponent token
                 @ ''/video.mp4?itemId='' @ ItemId item
           \<and> (CHR ''#'' \<notin> set (baseUrl_of env request) \<and> CHR ''#'' \<notin> set (ItemId item)
                \<longrightarrow> CHR ''#'' \<notin> set u)"
  using movie_detail [OF assms, of env token request] encodeURIComponent_no_hash [of token]
  by (simp add: detail_vod_def proxyUrl_def str_feature_def)

theorem movie_play_url_witness:
  "\<exists>r v. handleDetail ex_env (ex_client []) ''m1'' ''a b''
            (ex_request [] [(''host'', ''tv.example.org'')] None) =
             Inr (NextResponse_json (CmsList r) 200)
         \<and> list r = [v]
         \<and> vod_play_url v =
             Some ([CHR 0xE6, CHR 0xAD, CHR 0xA3, CHR 0xE7, CHR 0x89, CHR 0x87]
                   @ ''$https://tv.example.org/api/emby/play/a%20b/video.mp4?itemId=m1'')"
proof -
  let ?request = "ex_request [] [(''host'', ''tv.example.org'')] None"
  have item: "getItem (ex_client []) ''m1'' = Inr ex_movie"
    by (simp add: ex_client_def)
  have movie: "Type ex_movie = ''Movie''"
    by (simp add: ex_movie_def)
  have url: "baseUrl_of ex_env ?request @ ''/api/emby/play/'' @ encodeURIComponent ''a b''
        @ ''/video.mp4?itemId='' @ ItemId ex_movie =
      ''https://tv.example.org/api/emby/play/a%20b/video.mp4?itemId=m1''"
    by code_simp
  from movie_play_url [OF item movie, of ex_env "''a b''" ?request]
  obtain r v u where "handleDetail ex_env (ex_client []) ''m1'' ''a b'' ?request =
        Inr (NextResponse_json (CmsList r) 200)"
    and "list r = [v]" and "vod_play_url v = Some u"
    and "u = [CHR 0xE6, CHR 0xAD, CHR 0xA3, CHR 0xE7, CHR 0x89, CHR 0x87] @ ''$''
          @ baseUrl_of ex_env ?request @ ''/api/emby/play/'' @ encodeURIComponent ''a b''
          @ ''/video.mp4?itemId='' @ ItemId ex_movie"
    by blast
  then show ?thesis unfolding url by simp
qed

subsection \<open>The order of the episodes\<close>

lemma set_sort_insert: "set (sort_insert comparefn x ys) = insert x (set ys)"
  by (induction ys) auto

lemma episodeCompare_spec:
  assumes "ParentIndexNumber a \<noteq> ParentIndexNumber b \<longrightarrow>
             or_zero (ParentIndexNumber a) \<noteq> or_zero (ParentIndexNumber b)"
  shows "episodeCompare a b < 0 \<longleftrightarrow> \<not> spec_key_le (spec_episode_key b) (spec_episode_key a)"
  using assms by (auto simp add: episodeCompare_def spec_key_le_def spec_episode_key_def)

lemma spec_key_le_total: "spec_key_le k k' \<or> spec_key_le k' k"
  by (auto simp add: spec_key_le_def)

lemma spec_key_le_trans: "spec_key_le k k' \<Longrightarrow> spec_key_le k' k'' \<Longrightarrow> spec_key_le k k''"
  by (auto simp add: spec_key_le_def)

lemma sort_insert_sorted:
  assumes "\<forall>y\<in>set ys. ParentIndexNumber x \<noteq> ParentIndexNumber y \<longrightarrow>
             or_zero (ParentIndexNumber x) \<noteq> or_zero (ParentIndexNumber y)"
    and "sorted_wrt (\<lambda>a b. spec_key_le (spec_episode_key a) (spec_episode_key b)) ys"
  shows "sorted_wrt (\<lambda>a b. spec_key_le (spec_episode_key a) (spec_episode_key b))
           (sort_insert episodeCompare x ys)"
  using assms
proof (induction ys)
  case Nil
  show ?case by simp
next
  case (Cons y ys)
  have c: "episodeCompare x y < 0 \<longleftrightarrow> \<not> spec_key_le (spec_episode_key y) (spec_episode_key x)"
    using Cons.prems(1) by (intro episodeCompare_spec) simp
  show ?case
  proof (cases "episodeCompare x y < 0")
    case True
    with c have xy: "spec_key_le (spec_episode_key x) (spec_episode_key y)"
      using spec_key_le_total by blast
    have "\<forall>z\<in>set ys. spec_key_le (spec_episode_key x) (spec_episode_key z)"
      using Cons.prems(2) xy spec_key_le_trans by auto
    with True xy Cons.prems(2) show ?thesis by simp
  next
    case False
    with c have yx: "spec_key_le (spec_episode_key y) (spec_episode_key x)" by simp
    have "sorted_wrt (\<lambda>a b. spec_key_le (spec_episode_key a) (spec_episode_key b))
           (sort_insert episodeCompare x ys)"
      using Cons.IH Cons.prems by simp
    with False yx Cons.prems(2) show ?thesis
      by (simp add: set_sort_insert)
  qed
qed

lemma foldl_sort_insert_sorted:
  assumes "\<forall>a\<in>set (placed @ xs). \<forall>b\<in>set (placed @ xs).
             ParentIndexNumber a \<noteq> ParentIndexNumber b \<longrightarrow>
             or_zero (ParentIndexNumber a) \<noteq> or_zero (ParentIndexNumber b)"
    and "sorted_wrt (\<lambda>a b. spec_key_le (spec_episode_key a) (spec_episode_key b)) placed"
  shows "sorted_wrt (\<lambda>a b. spec_key_le (spec_episode_key a) (spec_episode_key b))
           (foldl (\<lambda>placed x. sort_insert episodeCompare x placed) placed xs)"
  using assms
proof (induction xs arbitrary: placed)
  case Nil
  then show ?case by simp
next
  case (Cons x xs)
  have "sorted_wrt (\<lambda>a b. spec_key_le (spec_episode_key a) (spec_episode_key b))
          (sort_insert episodeCompare x placed)"
    using Cons.prems by (intro sort_insert_sorted) auto
  moreover have "\<forall>a\<in>set (sort_insert episodeCompare x placed @ xs).
           \<forall>b\<in>set (sort_insert episodeCompare x placed @ xs).
             ParentIndexNumber a \<noteq> ParentIndexNumber b \<longrightarrow>
             or_zero (ParentIndexNumber a) \<noteq> or_zero (ParentIndexNumber b)"
    using Cons.prems(1) by (simp add: set_sort_insert)
  ultimately show ?case using Cons.IH by simp
qed

lemma mset_sort_insert: "mset (sort_insert comparefn x ys) = add_mset x (mset ys)"
  by (induction ys) auto

lemma mset_foldl_sort_insert:
  "mset (foldl (\<lambda>placed x. sort_insert comparefn x placed) placed xs) = mset placed + mset xs"
  by (induction xs arbitrary: placed) (auto simp add: mset_sort_insert)

lemma sorted_no_smaller_key:
  assumes "sorted_wrt (\<lambda>a b. spec_key_le (spec_episode_key a) (spec_episode_key b)) (y # ys)"
    and "\<not> spec_key_le (spec_episode_key y) (spec_episode_key x)"
  shows "filter (\<lambda>e. spec_episode_key e = spec_episode_key x) (y # ys) = []"
proof -
  have "spec_episode_key z \<noteq> spec_episode_key x" if "z \<in> set (y # ys)" for z
  proof
    assume eq: "spec_episode_key z = spec_episode_key x"
    have "spec_key_le (spec_episode_key y) (spec_episode_key z)"
      using that assms(1) by (auto simp add: spec_key_le_def)
    with eq assms(2) show False by simp
  qed
  then show ?thesis by (simp add: filter_empty_conv)
qed

lemma filter_sort_insert:
  assumes "\<forall>y\<in>set ys. ParentIndexNumber x \<noteq> ParentIndexNumber y \<longrightarrow>
             or_zero (ParentIndexNumber x) \<noteq> or_zero (ParentIndexNumber y)"
    and "sorted_wrt (\<lambda>a b. spec_key_le (spec_episode_key a) (spec_episode_key b)) ys"
  shows "filter (\<lambda>e. spec_episode_key e = k) (sort_insert episodeCompare x ys) =
           filter (\<lambda>e. spec_episode_key e = k) ys @ (if spec_episode_key x = k then [x] else [])"
  using assms
proof (induction ys)
  case Nil
  show ?case by simp
next
  case (Cons y ys)
  have c: "episodeCompare x y < 0 \<longleftrightarrow> \<not> spec_key_le (spec_episode_key y) (spec_episode_key x)"
    using Cons.prems(1) by (intro episodeCompare_spec) simp
  show ?case
  proof (cases "episodeCompare x y < 0")
    case True
    with c have "filter (\<lambda>e. spec_episode_key e = spec_episode_key x) (y # ys) = []"
      using sorted_no_smaller_key [OF Cons.prems(2)] by blast
    with True show ?thesis by auto
  next
    case False
    have "filter (\<lambda>e. spec_episode_key e = k) (sort_insert episodeCompare x ys) =
           filter (\<lambda>e. spec_episode_key e = k) ys @ (if spec_episode_key x = k then [x] else [])"
      using Cons.IH Cons.prems by simp
    with False show ?thesis by simp
  qed
qed

lemma filter_foldl_sort_insert:
  assumes "\<forall>a\<in>set (placed @ xs). \<forall>b\<in>set (placed @ xs).
             ParentIndexNumber a \<noteq> ParentIndexNumber b \<longrightarrow>
             or_zero (ParentIndexNumber a) \<noteq> or_zero (ParentIndexNumber b)"
    and "sorted_wrt (\<lambda>a b. spec_key_le (spec_episode_key a) (spec_episode_key b)) placed"
  shows "filter (\<lambda>e. spec_episode_key e = k)
           (foldl (\<lambda>placed x. sort_insert episodeCompare x placed) placed xs) =
         filter (\<lambda>e. spec_episode_key e = k) placed @ filter (\<lambda>e. spec_episode_key e = k) xs"
  using assms
proof (induction xs arbitrary: placed)
  case Nil
  then show ?case by simp
next
  case (Cons x xs)
  have s: "sorted_wrt (\<lambda>a b. spec_key_le (spec_episode_key a) (spec_episode_key b))
          (sort_insert episodeCompare x placed)"
    using Cons.prems by (intro sort_insert_sorted) auto
  have f: "filter (\<lambda>e. spec_episode_key e = k) (sort_insert episodeCompare x placed) =
           filter (\<lambda>e. spec_episode_key e = k) placed @ (if spec_episode_key x = k then [x] else [])"
    using Cons.prems by (intro filter_sort_insert) auto
  have a: "\<forall>a\<in>set (sort_insert episodeCompare x placed @ xs).
           \<forall>b\<in>set (sort_insert episodeCompare x placed @ xs).
             ParentIndexNumber a \<noteq> ParentIndexNumber b \<longrightarrow>
             or_zero (ParentIndexNumber a) \<noteq> or_zero (ParentIndexNumber b)"
    using Cons.prems(1) by (simp add: set_sort_insert)
  have "filter (\<lambda>e. spec_episode_key e = k)
           (foldl (\<lambda>placed x. sort_insert episodeCompare x placed)
              (sort_insert episodeCompare x placed) xs) =
         filter (\<lambda>e. spec_episode_key e = k) (sort_insert episodeCompare x placed)
           @ filter (\<lambda>e. spec_episode_key e = k) xs"
    using a s by (rule Cons.IH)
  with f show ?case by simp
qed

lemma array_sort_mset: "mset (array_sort comparefn xs) = mset xs"
  by (simp add: array_sort_def mset_foldl_sort_insert)

text \<open>
  The sort does order the episodes by (season index, episode index), absent indices
  counting as 0, as long as no two episodes have season indices that differ as values
  but agree once an absent one is read as 0, that is, as long as the list does not hold
  both an episode without a season index and an episode of season 0.
\<close>

lemma array_sort_spec_order:
  assumes "\<forall>a\<in>set eps. \<forall>b\<in>set eps.
             ParentIndexNumber a \<noteq> ParentIndexNumber b \<longrightarrow>
             or_zero (ParentIndexNumber a) \<noteq> or_zero (ParentIndexNumber b)"
  shows "sorted_wrt (\<lambda>a b. spec_key_le (spec_episode_key a) (spec_episode_key b))
           (array_sort episodeCompare eps)
       \<and> mset (array_sort episodeCompare eps) = mset eps"
  using assms foldl_sort_insert_sorted [of "[]" eps]
  by (simp add: array_sort_def mset_foldl_sort_insert)

text \<open>
  Under the same condition the sort is stable: episodes of equal key keep the order they
  had. Together with the order and the permutation this determines the result, whatever
  the sorting algorithm.
\<close>

lemma array_sort_stable:
  assumes "\<forall>a\<in>set eps. \<forall>b\<in>set eps.
             ParentIndexNumber a \<noteq> ParentIndexNumber b \<longrightarrow>
             or_zero (ParentIndexNumber a) \<noteq> or_zero (ParentIndexNumber b)"
  shows "filter (\<lambda>e. spec_episode_key e = k) (array_sort episodeCompare eps) =
         filter (\<lambda>e. spec_episode_key e = k) eps"
  using assms filter_foldl_sort_insert [of "[]" eps k]
  by (simp add: array_sort_def)

text \<open>The example of the specification: (1,2), (1,1), (2,1) come out as (1,1), (1,2), (2,1).\<close>

lemma series_example_order:
  "array_sort episodeCompare
     [ex_episode ''a'' (Some 1) (Some 2), ex_episode ''b'' (Some 1) (Some 1),
      ex_episode ''c'' (Some 2) (Some 1)] =
     [ex_episode ''b'' (Some 1) (Some 1), ex_episode ''a'' (Some 1) (Some 2),
      ex_episode ''c'' (Some 2) (Some 1)]"
  by (simp add: array_sort_def episodeCompare_def ex_episode_def or_zero_def)

text \<open>
  C5 at an input where the code departs from it. An episode without a season index and
  with episode index 2 comes first, an episode of season 0 with episode index 1 second.
  The comparison finds the two season values different (\<open>undefined !== 0\<close>) and
  returns the difference of the seasons read as numbers, \<open>0 - 0\<close>, without looking at
  the episode indices, so the sort leaves the two in place: the play list is episode 2,
  then episode 1, although with the absent season counted as 0 the keys are (0,2) and
  (0,1). The comparison answers 0 in both argument orders, so every stable sort of the
  two elements gives this result.
\<close>

theorem series_mixed_season_order:
  "array_sort episodeCompare
     [ex_episode ''e2'' None (Some 2), ex_episode ''e1'' (Some 0) (Some 1)] =
     [ex_episode ''e2'' None (Some 2), ex_episode ''e1'' (Some 0) (Some 1)]
   \<and> episodeCompare (ex_episode ''e2'' None (Some 2)) (ex_episode ''e1'' (Some 0) (Some 1)) = 0
   \<and> episodeCompare (ex_episode ''e1'' (Some 0) (Some 1)) (ex_episode ''e2'' None (Some 2)) = 0
   \<and> spec_episode_key (ex_episode ''e2'' None (Some 2)) = (0, 2)
   \<and> spec_episode_key (ex_episode ''e1'' (Some 0) (Some 1)) = (0, 1)
   \<and> \<not> spec_key_le (0, 2) (0, 1)
   \<and> handleDetail ex_env
         (ex_client [ex_episode ''e2'' None (Some 2), ex_episode ''e1'' (Some 0) (Some 1)])
         ''s1'' ''secret'' (ex_request [] [(''host'', ''tv.example.org'')] None) =
       Inr (NextResponse_json
              (CmsList
                 \<lparr>code = 1, msg = msg_data_list, page = 1, pagecount = 1, limit = 1, total = 1,
                  list =
                    [detail_vod
                       (ex_client [ex_episode ''e2'' None (Some 2), ex_episode ''e1'' (Some 0) (Some 1)])
                       ex_series
                       (str_di @ ''2'' @ str_ji
                        @ ''$https://tv.example.org/api/emby/play/secret/video.mp4?itemId=e2#''
                        @ str_di @ ''1'' @ str_ji
                        @ ''$https://tv.example.org/api/emby/play/secret/video.mp4?itemId=e1'')]\<rparr>)
              200)"
proof -
  let ?eps = "[ex_episode ''e2'' None (Some 2), ex_episode ''e1'' (Some 0) (Some 1)]"
  let ?request = "ex_request [] [(''host'', ''tv.example.org'')] None"
  have sorted: "array_sort episodeCompare ?eps = ?eps"
    by (simp add: array_sort_def episodeCompare_def ex_episode_def or_zero_def)
  have k2: "spec_episode_key (ex_episode ''e2'' None (Some 2)) = (0, 2)"
    by (simp add: spec_episode_key_def ex_episode_def or_zero_def)
  have k1: "spec_episode_key (ex_episode ''e1'' (Some 0) (Some 1)) = (0, 1)"
    by (simp add: spec_episode_key_def ex_episode_def or_zero_def)
  have nle: "\<not> spec_key_le (0, 2) (0, 1)"
    by (simp add: spec_key_le_def)
  have c21: "episodeCompare (ex_episode ''e2'' None (Some 2)) (ex_episode ''e1'' (Some 0) (Some 1)) = 0"
    by (simp add: episodeCompare_def ex_episode_def or_zero_def)
  have c12: "episodeCompare (ex_episode ''e1'' (Some 0) (Some 1)) (ex_episode ''e2'' None (Some 2)) = 0"
    by (simp add: episodeCompare_def ex_episode_def or_zero_def)
  have item: "getItem (ex_client ?eps) ''s1'' = Inr ex_series"
    by (simp add: ex_client_def)
  have series: "Type ex_series = ''Series''"
    by (simp add: ex_series_def)
  have eps: "getEpisodes (ex_client ?eps) ''s1'' = Inr ?eps"
    by (simp add: ex_client_def)
  have e2: "episodeEntry (baseUrl_of ex_env ?request) ''secret'' (ex_episode ''e2'' None (Some 2)) =
      str_di @ ''2'' @ str_ji
        @ ''$https://tv.example.org/api/emby/play/secret/video.mp4?itemId=e2''"
    by code_simp
  have e1: "episodeEntry (baseUrl_of ex_env ?request) ''secret'' (ex_episode ''e1'' (Some 0) (Some 1)) =
      str_di @ ''1'' @ str_ji
        @ ''$https://tv.example.org/api/emby/play/secret/video.mp4?itemId=e1''"
    by code_simp
  have "handleDetail ex_env (ex_client ?eps) ''s1'' ''secret'' ?request =
       Inr (NextResponse_json
              (CmsList
                 \<lparr>code = 1, msg = msg_data_list, page = 1, pagecount = 1, limit = 1, total = 1,
                  list =
                    [detail_vod (ex_client ?eps) ex_series
                       (str_di @ ''2'' @ str_ji
                        @ ''$https://tv.example.org/api/emby/play/secret/video.mp4?itemId=e2#''
                        @ str_di @ ''1'' @ str_ji
                        @ ''$https://tv.example.org/api/emby/play/secret/video.mp4?itemId=e1'')]\<rparr>)
              200)"
    unfolding series_detail [OF item series eps] sorted
    by (simp add: e1 e2)
  with sorted k1 k2 nle c21 c12 show ?thesis by blast
qed

text \<open>
  C10. For an item of type \<open>Series\<close> the play list is the entries of the episodes,
  in the order the sort leaves them, joined by \<open>#\<close>. An episode without an episode
  index has the key (season, 0), and the comparison gives for it what it gives for the
  same episode with index 0; as long as the list does not hold both an episode without a
  season index and an episode of season 0, the episodes come out ordered by that key,
  those of equal key in the order they had, so the episode stands where index 0 puts it.
  Its entry is built from the raw value: it is the text U+7B2C, \<open>undefined\<close>, U+96C6
  (in UTF-8), then \<open>$\<close> and the proxy URL.
\<close>

theorem absent_episode_index:
  assumes "getItem client itemId = Inr item" and "Type item = ''Series''"
    and "getEpisodes client itemId = Inr eps"
  shows "\<exists>r v es. handleDetail env client itemId token request =
                    Inr (NextResponse_json (CmsList r) 200)
           \<and> list r = [v]
           \<and> vod_play_url v =
               Some (join ''#'' (map (episodeEntry (baseUrl_of env request) token) es))
           \<and> mset es = mset eps
           \<and> ((\<forall>a\<in>set eps. \<forall>b\<in>set eps.
                  ParentIndexNumber a \<noteq> ParentIndexNumber b \<longrightarrow>
                  or_zero (ParentIndexNumber a) \<noteq> or_zero (ParentIndexNumber b)) \<longrightarrow>
                es = array_sort episodeCompare eps
                \<and> sorted_wrt (\<lambda>a b. spec_key_le (spec_episode_key a) (spec_episode_key b)) es
                \<and> (\<forall>k. filter (\<lambda>e. spec_episode_key e = k) es =
                        filter (\<lambda>e. spec_episode_key e = k) eps))
           \<and> (\<forall>ep. IndexNumber ep = None \<longrightarrow>
                 spec_episode_key ep = (or_zero (ParentIndexNumber ep), 0)
                 \<and> (\<forall>other. episodeCompare ep other = episodeCompare (ep\<lparr>IndexNumber := Some 0\<rparr>) other
                        \<and> episodeCompare other ep = episodeCompare other (ep\<lparr>IndexNumber := Some 0\<rparr>))
                 \<and> episodeEntry (baseUrl_of env request) token ep =
                     [CHR 0xE7, CHR 0xAC, CHR 0xAC] @ ''undefined'' @ [CHR 0xE9, CHR 0x9B, CHR 0x86]
                       @ ''$'' @ proxyUrl (baseUrl_of env request) token (ItemId ep))"
proof -
  let ?es = "array_sort episodeCompare eps"
  let ?r = "\<lparr>code = 1, msg = msg_data_list, page = 1, pagecount = 1, limit = 1, total = 1,
             list = [detail_vod client item
                       (join ''#'' (map (episodeEntry (baseUrl_of env request) token) ?es))]\<rparr>"
  let ?v = "detail_vod client item
              (join ''#'' (map (episodeEntry (baseUrl_of env request) token) ?es))"
  have resp: "handleDetail env client itemId token request = Inr (NextResponse_json (CmsList ?r) 200)"
    by (rule series_detail [OF assms])
  have l: "list ?r = [?v]" by simp
  have u: "vod_play_url ?v =
      Some (join ''#'' (map (episodeEntry (baseUrl_of env request) token) ?es))"
    by (simp add: detail_vod_def)
  have perm: "mset ?es = mset eps"
    by (rule array_sort_mset)
  have ordered: "?es = array_sort episodeCompare eps
      \<and> sorted_wrt (\<lambda>a b. spec_key_le (spec_episode_key a) (spec_episode_key b)) ?es
      \<and> (\<forall>k. filter (\<lambda>e. spec_episode_key e = k) ?es = filter (\<lambda>e. spec_episode_key e = k) eps)"
    if "\<forall>a\<in>set eps. \<forall>b\<in>set eps.
                  ParentIndexNumber a \<noteq> ParentIndexNumber b \<longrightarrow>
                  or_zero (ParentIndexNumber a) \<noteq> or_zero (ParentIndexNumber b)"
    using array_sort_spec_order [OF that] array_sort_stable [OF that] by simp
  have absent: "spec_episode_key ep = (or_zero (ParentIndexNumber ep), 0)
      \<and> (\<forall>other. episodeCompare ep other = episodeCompare (ep\<lparr>IndexNumber := Some 0\<rparr>) other
             \<and> episodeCompare other ep = episodeCompare other (ep\<lparr>IndexNumber := Some 0\<rparr>))
      \<and> episodeEntry (baseUrl_of env request) token ep =
          [CHR 0xE7, CHR 0xAC, CHR 0xAC] @ ''undefined'' @ [CHR 0xE9, CHR 0x9B, CHR 0x86]
            @ ''$'' @ proxyUrl (baseUrl_of env request) token (ItemId ep)"
    if "IndexNumber ep = None" for ep
    using that
    by (simp add: spec_episode_key_def episodeCompare_def or_zero_def episodeEntry_def
          template_number_def str_di_def str_ji_def)
  from resp l u perm ordered absent show ?thesis by blast
qed

theorem absent_episode_index_witness:
  "\<exists>r v. handleDetail ex_env
            (ex_client [ex_episode ''e2'' (Some 1) (Some 2), ex_episode ''e0'' (Some 1) None,
                        ex_episode ''e1'' (Some 1) (Some 1)])
            ''s1'' ''secret'' (ex_request [] [(''host'', ''localhost:3000'')] None) =
             Inr (NextResponse_json (CmsList r) 200)
         \<and> list r = [v]
         \<and> vod_play_url v =
             Some ([CHR 0xE7, CHR 0xAC, CHR 0xAC] @ ''undefined'' @ [CHR 0xE9, CHR 0x9B, CHR 0x86]
                   @ ''$http://localhost:3000/api/emby/play/secret/video.mp4?itemId=e0#''
                   @ [CHR 0xE7, CHR 0xAC, CHR 0xAC] @ ''1'' @ [CHR 0xE9, CHR 0x9B, CHR 0x86]
                   @ ''$http://localhost:3000/api/emby/play/secret/video.mp4?itemId=e1#''
                   @ [CHR 0xE7, CHR 0xAC, CHR 0xAC] @ ''2'' @ [CHR 0xE9, CHR 0x9B, CHR 0x86]
                   @ ''$http://localhost:3000/api/emby/play/secret/video.mp4?itemId=e2'')"
proof -
  let ?eps = "[ex_episode ''e2'' (Some 1) (Some 2), ex_episode ''e0'' (Some 1) None,
               ex_episode ''e1'' (Some 1) (Some 1)]"
  let ?request = "ex_request [] [(''host'', ''localhost:3000'')] None"
  have item: "getItem (ex_client ?eps) ''s1'' = Inr ex_series"
    by (simp add: ex_client_def)
  have series: "Type ex_series = ''Series''"
    by (simp add: ex_series_def)
  have eps: "getEpisodes (ex_client ?eps) ''s1'' = Inr ?eps"
    by (simp add: ex_client_def)
  have seasons: "\<forall>a\<in>set ?eps. \<forall>b\<in>set ?eps.
      ParentIndexNumber a \<noteq> ParentIndexNumber b \<longrightarrow>
      or_zero (ParentIndexNumber a) \<noteq> or_zero (ParentIndexNumber b)"
    by (simp add: ex_episode_def)
  have sorted: "array_sort episodeCompare ?eps =
      [ex_episode ''e0'' (Some 1) None, ex_episode ''e1'' (Some 1) (Some 1),
       ex_episode ''e2'' (Some 1) (Some 2)]"
    by (simp add: array_sort_def episodeCompare_def ex_episode_def or_zero_def)
  have none: "IndexNumber (ex_episode ''e0'' (Some 1) None) = None"
    by (simp add: ex_episode_def)
  have p0: "proxyUrl (baseUrl_of ex_env ?request) ''secret''
        (ItemId (ex_episode ''e0'' (Some 1) None)) =
      ''http://localhost:3000/api/emby/play/secret/video.mp4?itemId=e0''"
    by code_simp
  have e1: "episodeEntry (baseUrl_of ex_env ?request) ''secret''
        (ex_episode ''e1'' (Some 1) (Some 1)) =
      [CHR 0xE7, CHR 0xAC, CHR 0xAC] @ ''1'' @ [CHR 0xE9, CHR 0x9B, CHR 0x86]
        @ ''$http://localhost:3000/api/emby/play/secret/video.mp4?itemId=e1''"
    by code_simp
  have e2: "episodeEntry (baseUrl_of ex_env ?request) ''secret''
        (ex_episode ''e2'' (Some 1) (Some 2)) =
      [CHR 0xE7, CHR 0xAC, CHR 0xAC] @ ''2'' @ [CHR 0xE9, CHR 0x9B, CHR 0x86]
        @ ''$http://localhost:3000/api/emby/play/secret/video.mp4?itemId=e2''"
    by code_simp
  from absent_episode_index [OF item series eps, of ex_env "''secret''" ?request]
  obtain r v es where h: "handleDetail ex_env (ex_client ?eps) ''s1'' ''secret'' ?request =
        Inr (NextResponse_json (CmsList r) 200)" "list r = [v]"
      "vod_play_url v =
         Some (join ''#'' (map (episodeEntry (baseUrl_of ex_env ?request) ''secret'') es))"
    and ord: "(\<forall>a\<in>set ?eps. \<forall>b\<in>set ?eps.
        ParentIndexNumber a \<noteq> ParentIndexNumber b \<longrightarrow>
        or_zero (ParentIndexNumber a) \<noteq> or_zero (ParentIndexNumber b)) \<longrightarrow>
        es = array_sort episodeCompare ?eps"
    and a: "\<forall>ep. IndexNumber ep = None \<longrightarrow>
        episodeEntry (baseUrl_of ex_env ?request) ''secret'' ep =
          [CHR 0xE7, CHR 0xAC, CHR 0xAC] @ ''undefined'' @ [CHR 0xE9, CHR 0x9B, CHR 0x86]
            @ ''$'' @ proxyUrl (baseUrl_of ex_env ?request) ''secret'' (ItemId ep)"
    by blast
  from ord seasons have es: "es = array_sort episodeCompare ?eps" by (rule mp)
  from a [rule_format, OF none]
  have e0: "episodeEntry (baseUrl_of ex_env ?request) ''secret''
        (ex_episode ''e0'' (Some 1) None) =
      [CHR 0xE7, CHR 0xAC, CHR 0xAC] @ ''undefined'' @ [CHR 0xE9, CHR 0x9B, CHR 0x86]
        @ ''$http://localhost:3000/api/emby/play/secret/video.mp4?itemId=e0''"
    unfolding p0 by simp
  from h show ?thesis
    unfolding es sorted by (simp add: e0 e1 e2)
qed

end
